theory Spec2Isabelle
  imports Complex_Main "HOL-Library.Sublist"
begin

section \<open>Python values used by \<open>mixed_scraper.py\<close>\<close>

text \<open>
  Strings are \<open>char list\<close>. Python floats are modelled as exact rationals: every score is
  a sum of a few quotients of small integers, and the properties below speak about the
  arithmetic of the scoring formula, not about binary rounding.
  Python's \<open>sub in text\<close> on strings is \<^const>\<open>sublist\<close> (a contiguous occurrence).
  A dictionary key that may be absent is an \<open>option\<close>. A key that is present need not hold
  a string: a cell of the JobSpy data frame that has no value holds \<open>None\<close> or the float
  \<open>nan\<close>, and a field of the profile, read from JSON, may be \<open>null\<close>.
\<close>

datatype py_error =
  ZeroDivisionError | IndexError | KeyError | FileNotFoundError | ValueError
  | AttributeError | TypeError

text \<open>
  A value under a key of a job dictionary or in a cell of the data frame: a string, a
  boolean, \<open>None\<close> or \<open>nan\<close>.
\<close>

datatype pyval = Str string | Bool bool | PyNone | NaN

text \<open>A field of the profile: JSON \<open>null\<close> (Python's \<open>None\<close>) or a value of its type.\<close>

datatype 'a nullable = Null | Val 'a

definition bind_res :: "('e + 'a) \<Rightarrow> ('a \<Rightarrow> 'e + 'b) \<Rightarrow> 'e + 'b" where
  "bind_res m f = (case m of Inl e \<Rightarrow> Inl e | Inr x \<Rightarrow> f x)"

text \<open>True division \<open>a / b\<close>: raises on a zero divisor.\<close>

definition py_div :: "rat \<Rightarrow> rat \<Rightarrow> py_error + rat" where
  "py_div a b = (if b = 0 then Inl ZeroDivisionError else Inr (a / b))"

text \<open>\<open>str.isspace\<close> on the ASCII range: tab, line feed, VT, FF, CR, FS, GS, RS, US, space.\<close>

definition is_space :: "char \<Rightarrow> bool" where
  "is_space c =
     (c \<in> set [CHR 0x09, CHR 0x0A, CHR 0x0B, CHR 0x0C, CHR 0x0D,
                CHR 0x1C, CHR 0x1D, CHR 0x1E, CHR 0x1F, CHR 0x20])"

definition lower_char :: "char \<Rightarrow> char" where
  "lower_char c =
     (case map_of (zip ''ABCDEFGHIJKLMNOPQRSTUVWXYZ'' ''abcdefghijklmnopqrstuvwxyz'') c of
        None \<Rightarrow> c
      | Some l \<Rightarrow> l)"

text \<open>\<open>str.lower()\<close>, on ASCII letters.\<close>

definition lower :: "string \<Rightarrow> string" where
  "lower s = map lower_char s"

text \<open>
  \<open>str.split()\<close> without arguments: the maximal runs of non-whitespace characters.
  The first argument is the word being read.
\<close>

fun split_from :: "string \<Rightarrow> string \<Rightarrow> string list" where
  "split_from w [] = (if w = [] then [] else [w])"
| "split_from w (c # cs) =
     (if is_space c then (if w = [] then split_from [] cs else w # split_from [] cs)
      else split_from (w @ [c]) cs)"

definition split :: "string \<Rightarrow> string list" where
  "split s = split_from [] s"

text \<open>\<open>str.strip()\<close>.\<close>

definition strip :: "string \<Rightarrow> string" where
  "strip s = rev (dropWhile is_space (rev (dropWhile is_space s)))"

text \<open>\<open>d.get(key, default)\<close>: the default only when the key is absent.\<close>

definition get_val :: "'a \<Rightarrow> 'a option \<Rightarrow> 'a" where
  "get_val d v = (case v of None \<Rightarrow> d | Some x \<Rightarrow> x)"

text \<open>\<open>str(v)\<close>, also what an f-string makes of \<open>v\<close>.\<close>

definition py_str :: "pyval \<Rightarrow> string" where
  "py_str v =
     (case v of
        Str s \<Rightarrow> s
      | Bool b \<Rightarrow> (if b then ''True'' else ''False'')
      | PyNone \<Rightarrow> ''None''
      | NaN \<Rightarrow> ''nan'')"

text \<open>\<open>bool(v)\<close>: the empty string, \<open>False\<close> and \<open>None\<close> are false, \<open>nan\<close> is true.\<close>

definition truthy :: "pyval \<Rightarrow> bool" where
  "truthy v =
     (case v of Str s \<Rightarrow> s \<noteq> [] | Bool b \<Rightarrow> b | PyNone \<Rightarrow> False | NaN \<Rightarrow> True)"

text \<open>Truth value of \<open>d.get(key)\<close>: an absent key gives \<open>None\<close>.\<close>

definition truthy_get :: "pyval option \<Rightarrow> bool" where
  "truthy_get v = truthy (get_val PyNone v)"

text \<open>\<open>v.lower()\<close>: only a string has the method.\<close>

definition lower_val :: "pyval \<Rightarrow> py_error + string" where
  "lower_val v = (case v of Str s \<Rightarrow> Inr (lower s) | _ \<Rightarrow> Inl AttributeError)"

text \<open>\<open>v.lower()\<close> for a string field of the profile: \<open>None\<close> has no such method.\<close>

definition lower_json :: "string nullable \<Rightarrow> py_error + string" where
  "lower_json v = (case v of Null \<Rightarrow> Inl AttributeError | Val s \<Rightarrow> Inr (lower s))"

section \<open>Data model\<close>

text \<open>The job dictionary built by the parsers and decorated by \<open>scrape_and_match\<close>.\<close>

record job =
  title :: "pyval option"
  company :: "pyval option"
  location :: "pyval option"
  description :: "pyval option"
  url :: "pyval option"
  site :: "string option"
  date_posted :: "string option"
  is_remote :: "pyval option"
  scraped_at :: "string option"
  match_score :: "rat option"

text \<open>The parsed CV: \<open>cv_data['title']\<close>, \<open>cv_data['job_search_intent']\<close>, \<open>cv_data['skills']\<close>.\<close>

record intent =
  domains :: "string list nullable option"
  location_preference :: "string nullable option"

record cv_skills =
  technical :: "string list nullable option"

record cv_data =
  cv_name :: "string nullable option"
  cv_title :: "string nullable option"
  job_search_intent :: "intent nullable option"
  skills :: "cv_skills nullable option"

section \<open>Matching and scoring\<close>

text \<open>\<open>job_text = f"{job.get('title', '')} {job.get('description', '')}".lower()\<close>\<close>

definition job_text_of :: "job \<Rightarrow> string" where
  "job_text_of j =
     lower (py_str (get_val (Str []) (title j)) @ '' '' @ py_str (get_val (Str []) (description j)))"

text \<open>
  Lines 450-461, ``Check domains (30 points)'': the amount added to \<open>score\<close>. The test
  \<open>'domains' in cv_data['job_search_intent']\<close> raises \<open>TypeError\<close> when the value is
  \<open>None\<close>; \<open>if domains\<close> is false for \<open>None\<close> and for the empty list.
\<close>

definition domain_points :: "string \<Rightarrow> cv_data \<Rightarrow> py_error + rat" where
  "domain_points job_text cv =
     (case job_search_intent cv of
        None \<Rightarrow> Inr 0
      | Some Null \<Rightarrow> Inl TypeError
      | Some (Val intent) \<Rightarrow>
         (case domains intent of
            None \<Rightarrow> Inr 0
          | Some Null \<Rightarrow> Inr 0
          | Some (Val ds) \<Rightarrow>
             if ds \<noteq> [] then
               (let domain_keywords =
                      concat (map (\<lambda>domain. map lower (filter (\<lambda>w. length w > 4) (split domain))) ds)
                in if domain_keywords \<noteq> [] then
                     (let matching = length (filter (\<lambda>kw. sublist kw job_text) domain_keywords)
                      in bind_res (py_div (of_nat matching) (of_nat (length domain_keywords)))
                           (\<lambda>q. Inr (q * 30)))
                   else Inr 0)
             else Inr 0))"

text \<open>The loop of lines 467-475 over the skills; the last argument is \<open>matching_skills\<close>.\<close>

fun skills_loop :: "string \<Rightarrow> string list \<Rightarrow> rat \<Rightarrow> rat" where
  "skills_loop job_text [] matching_skills = matching_skills"
| "skills_loop job_text (skill # rest) matching_skills =
     (let skill_lower = lower skill in
      if sublist skill_lower job_text then skills_loop job_text rest (matching_skills + 1)
      else
        (let skill_words = split skill_lower in
         if list_ex (\<lambda>word. sublist word job_text) (filter (\<lambda>word. length word > 3) skill_words)
         then skills_loop job_text rest (matching_skills + 1 / 2)
         else skills_loop job_text rest matching_skills))"

text \<open>
  Lines 463-477, ``Check skills (35 points)'': the amount added to \<open>score\<close>. The test
  \<open>'technical' in cv_data['skills']\<close> and the slice \<open>[:20]\<close> raise \<open>TypeError\<close> on \<open>None\<close>.
\<close>

definition skill_points :: "string \<Rightarrow> cv_data \<Rightarrow> py_error + rat" where
  "skill_points job_text cv =
     (case skills cv of
        None \<Rightarrow> Inr 0
      | Some Null \<Rightarrow> Inl TypeError
      | Some (Val sk) \<Rightarrow>
         (case technical sk of
            None \<Rightarrow> Inr 0
          | Some Null \<Rightarrow> Inl TypeError
          | Some (Val ts) \<Rightarrow>
             (let skills = take 20 ts in
              if skills \<noteq> [] then
                (let matching_skills = skills_loop job_text skills 0
                 in bind_res (py_div matching_skills (of_nat (length skills)))
                      (\<lambda>q. Inr (q * 35)))
              else Inr 0)))"

text \<open>
  Lines 479-481, ``Location bonus (15 points)'': \<open>job.get('location', '').lower()\<close> is
  evaluated first and raises \<open>AttributeError\<close> when the value is not a string.
\<close>

definition location_points :: "job \<Rightarrow> py_error + rat" where
  "location_points j =
     bind_res (lower_val (get_val (Str []) (location j))) (\<lambda>loc.
       Inr (if sublist ''tunis'' loc \<or> truthy_get (is_remote j) then 15 else 0))"

text \<open>
  Lines 483-490, ``Title match (10 points)'': line 484 lower-cases the title of the
  profile, line 485 the title of the posting; each raises \<open>AttributeError\<close> when the value
  is not a string.
\<close>

definition title_points :: "job \<Rightarrow> cv_data \<Rightarrow> py_error + rat" where
  "title_points j cv =
     bind_res (lower_json (get_val (Val []) (cv_title cv))) (\<lambda>cv_title.
       bind_res (lower_val (get_val (Str []) (title j))) (\<lambda>job_title.
         if cv_title \<noteq> [] \<and> job_title \<noteq> [] then
           (let title_words = filter (\<lambda>w. length w > 3) (split cv_title)
            in if title_words \<noteq> [] then
                 (let matching = length (filter (\<lambda>w. sublist w job_title) title_words)
                  in bind_res (py_div (of_nat matching) (of_nat (length title_words)))
                       (\<lambda>q. Inr (q * 10)))
               else Inr 0)
         else Inr 0))"

text \<open>
  \<open>calculate_match_score\<close> (lines 441-492): \<open>score\<close> starts at 0 and each block adds its
  points in the order of the source; the result is \<open>min(score, 100.0)\<close>.
\<close>

definition calculate_match_score :: "job \<Rightarrow> cv_data \<Rightarrow> py_error + rat" where
  "calculate_match_score j cv =
     (let score = 0;
          job_text = job_text_of j;
          score = (if truthy_get (title j) then score + 10 else score)
      in bind_res (domain_points job_text cv) (\<lambda>d.
           let score = score + d
           in bind_res (skill_points job_text cv) (\<lambda>s.
                let score = score + s
                in bind_res (location_points j) (\<lambda>l.
                     let score = score + l
                     in bind_res (title_points j cv) (\<lambda>t.
                          let score = score + t
                          in Inr (min score 100))))))"

section \<open>Search term\<close>

text \<open>
  The dictionary built by \<open>extract_search_keywords\<close>; its four keys are always present.
  The title, the domains and the location are copied from the profile as they are, so
  they may be \<open>None\<close>.
\<close>

record search_keywords =
  kw_title :: "string nullable"
  kw_domains :: "string list nullable"
  kw_skills :: "string list"
  kw_location :: "string nullable"

text \<open>
  \<open>extract_search_keywords\<close> (lines 86-103). \<open>intent.get\<close> raises \<open>AttributeError\<close> when
  \<open>cv_data['job_search_intent']\<close> is \<open>None\<close>; the test \<open>'technical' in cv_data['skills']\<close>
  and the slice \<open>[:10]\<close> raise \<open>TypeError\<close> on \<open>None\<close>.
\<close>

definition extract_search_keywords :: "cv_data \<Rightarrow> py_error + search_keywords" where
  "extract_search_keywords cv =
     (let kw = \<lparr>kw_title = get_val (Val []) (cv_title cv), kw_domains = Val [], kw_skills = [],
                 kw_location = Val []\<rparr>
      in bind_res
           (case job_search_intent cv of
              None \<Rightarrow> Inr kw
            | Some Null \<Rightarrow> Inl AttributeError
            | Some (Val intent) \<Rightarrow>
                Inr (kw\<lparr>kw_domains := get_val (Val []) (domains intent),
                        kw_location := get_val (Val []) (location_preference intent)\<rparr>))
           (\<lambda>kw. case skills cv of
                    None \<Rightarrow> Inr kw
                  | Some Null \<Rightarrow> Inl TypeError
                  | Some (Val sk) \<Rightarrow>
                     (case technical sk of
                        None \<Rightarrow> Inr kw
                      | Some Null \<Rightarrow> Inl TypeError
                      | Some (Val ts) \<Rightarrow> Inr (kw\<lparr>kw_skills := take 10 ts\<rparr>))))"

text \<open>\<open>xs[0]\<close>: raises \<open>IndexError\<close> on the empty list.\<close>

definition first :: "'a list \<Rightarrow> py_error + 'a" where
  "first xs = (case xs of [] \<Rightarrow> Inl IndexError | x # _ \<Rightarrow> Inr x)"

text \<open>
  A string field and a list field of the profile as a truth test and the reads behind it
  see them: \<open>None\<close> is false like the empty string and the empty list.
\<close>

definition text_of :: "string nullable \<Rightarrow> string" where
  "text_of v = (case v of Null \<Rightarrow> [] | Val s \<Rightarrow> s)"

definition items_of :: "'a list nullable \<Rightarrow> 'a list" where
  "items_of v = (case v of Null \<Rightarrow> [] | Val xs \<Rightarrow> xs)"

text \<open>
  \<open>build_search_term\<close> (lines 105-117). The conjunctions short-circuit, so the title is
  split only when it is a non-empty string, and \<open>keywords['domains'][0]\<close> is read only
  when the list is not empty.
\<close>

definition build_search_term :: "search_keywords \<Rightarrow> py_error + string" where
  "build_search_term k =
     (if text_of (kw_title k) \<noteq> [] \<and> length (split (text_of (kw_title k))) \<le> 4
      then Inr (text_of (kw_title k))
      else if items_of (kw_domains k) \<noteq> [] \<and> hd (items_of (kw_domains k)) \<noteq> [] then
        (let domain = hd (items_of (kw_domains k))
         in if domain \<noteq> [] then first (split domain) else Inr ''informatique'')
      else if kw_skills k \<noteq> [] then Inr (hd (kw_skills k))
      else Inr ''informatique'')"

section \<open>Collectors\<close>

text \<open>
  The result of a call that leaves the program (the browser, the HTML parser, JobSpy):
  it raised an exception or it returned a value.
\<close>

datatype 'a outcome = Raised | Returned 'a

text \<open>\<open>xs[:n]\<close> for an integer \<open>n\<close>; a negative \<open>n\<close> counts from the end.\<close>

definition py_take :: "int \<Rightarrow> 'a list \<Rightarrow> 'a list" where
  "py_take n xs = (if 0 \<le> n then take (nat n) xs else take (length xs - nat (- n)) xs)"

text \<open>\<open>s.replace(c, t)\<close> for a single character \<open>c\<close>.\<close>

definition replace_char :: "char \<Rightarrow> string \<Rightarrow> string \<Rightarrow> string" where
  "replace_char c t s = concat (map (\<lambda>x. if x = c then t else [x]) s)"

text \<open>The job dictionary every Tunisia parser starts from.\<close>

definition new_job :: "string \<Rightarrow> string \<Rightarrow> job" where
  "new_job site_name now =
     \<lparr>title = Some (Str []), company = Some (Str []), location = Some (Str ''Tunisie''),
      description = Some (Str []), url = Some (Str []), site = Some site_name,
      date_posted = Some [], is_remote = None, scraped_at = Some now, match_score = None\<rparr>"

text \<open>\<open>url\<close> if it starts with \<open>http\<close>, else the site's base address followed by it.\<close>

definition absolute_url :: "string \<Rightarrow> string \<Rightarrow> string" where
  "absolute_url base u = (if \<not> prefix ''http'' u then base @ u else u)"

text \<open>An \<open><a href=...>\<close> element: its stripped text and its \<open>href\<close>.\<close>

record link =
  link_text :: string
  link_href :: string

text \<open>
  What \<open>_parse_emploi_tn_job\<close> reads from a card of Emploitunisie.com: the first link
  whose address contains \<open>/recruteur/\<close>, the text of the card, the first paragraph.
\<close>

record emploi_card =
  ec_recruteur :: "string option"
  ec_text :: string
  ec_p :: "string option"

text \<open>A heading found on the page: its link and the container \<open>find_parent\<close> returns.\<close>

record 'c heading =
  h_link :: "link option"
  h_parent :: "'c option"

definition emploi_locations :: "string list" where
  "emploi_locations = [''Tunis'', ''Sfax'', ''Sousse'', ''Ariana'', ''Nabeul'', ''Monastir'', ''Lac'']"

text \<open>\<open>_parse_emploi_tn_job\<close> (lines 155-191); \<open>None\<close> is Python's \<open>None\<close>.\<close>

definition parse_emploi_tn_job ::
  "string \<Rightarrow> emploi_card \<Rightarrow> link option option \<Rightarrow> job option" where
  "parse_emploi_tn_job now job_card title_elem =
     (let job = new_job ''Emploitunisie.com'' now;
          job = (case title_elem of
                   None \<Rightarrow> job
                 | Some None \<Rightarrow> job
                 | Some (Some title_link) \<Rightarrow>
                     job\<lparr>title := Some (Str (link_text title_link)),
                         url := Some (Str (absolute_url ''https://www.emploitunisie.com''
                                             (link_href title_link)))\<rparr>);
          job = (case ec_recruteur job_card of
                   None \<Rightarrow> job
                 | Some c \<Rightarrow> job\<lparr>company := Some (Str c)\<rparr>);
          job = (case find (\<lambda>loc. sublist loc (ec_text job_card)) emploi_locations of
                   None \<Rightarrow> job
                 | Some loc \<Rightarrow> job\<lparr>location := Some (Str loc)\<rparr>);
          job = (case ec_p job_card of
                   None \<Rightarrow> job
                 | Some d \<Rightarrow> job\<lparr>description := Some (Str (take 500 d))\<rparr>)
      in if truthy_get (title job) then Some job else None)"

text \<open>
  What \<open>_parse_tanitjobs_job\<close> reads from a card of Tanitjobs: the first heading or link
  (tag name, stripped text, \<open>href\<close>), the element naming the company, the text naming a
  town, the first paragraph.
\<close>

record tanit_title =
  tt_name :: string
  tt_text :: string
  tt_href :: "string option"

record tanit_card =
  tc_title :: "tanit_title option"
  tc_company :: "string option"
  tc_location :: "string option"
  tc_p :: "string option"

text \<open>\<open>_parse_tanitjobs_job\<close> (lines 227-260).\<close>

definition parse_tanitjobs_job :: "string \<Rightarrow> tanit_card \<Rightarrow> job option" where
  "parse_tanitjobs_job now job_card =
     (let job = new_job ''Tanitjobs'' now;
          job = (case tc_title job_card of
                   None \<Rightarrow> job
                 | Some title_elem \<Rightarrow>
                     (let job = job\<lparr>title := Some (Str (tt_text title_elem))\<rparr>
                      in if tt_name title_elem = ''a'' \<and> get_val [] (tt_href title_elem) \<noteq> []
                         then job\<lparr>url := Some (Str (absolute_url ''https://www.tanitjobs.com''
                                                      (get_val [] (tt_href title_elem))))\<rparr>
                         else job));
          job = (case tc_company job_card of
                   None \<Rightarrow> job
                 | Some c \<Rightarrow> job\<lparr>company := Some (Str c)\<rparr>);
          job = (case tc_location job_card of
                   None \<Rightarrow> job
                 | Some l \<Rightarrow> job\<lparr>location := Some (Str (strip l))\<rparr>);
          job = (case tc_p job_card of
                   None \<Rightarrow> job
                 | Some d \<Rightarrow> job\<lparr>description := Some (Str (take 500 d))\<rparr>)
      in if truthy_get (title job) then Some job else None)"

text \<open>
  What \<open>_parse_keejob_job\<close> reads from a card of Keejob: the first link whose address
  contains \<open>/companies/\<close>, the text nodes of the card, the first paragraph.
\<close>

record keejob_card =
  kc_company :: "string option"
  kc_strings :: "string list"
  kc_p :: "string option"

definition keejob_locations :: "string list" where
  "keejob_locations =
     [''Tunis'', ''Sfax'', ''Sousse'', ''Ariana'', ''Nabeul'', ''Monastir'', ''Ben Arous'']"

text \<open>
  The loop of lines 320-327 over the text nodes; the last argument is \<open>job['location']\<close>,
  which is \<open>Tunisie\<close> when the loop starts.
\<close>

fun keejob_location :: "string list \<Rightarrow> string \<Rightarrow> string" where
  "keejob_location [] loc = loc"
| "keejob_location (text_elem # rest) loc =
     (let text = strip text_elem;
          loc = (case find (\<lambda>l. sublist l text) keejob_locations of None \<Rightarrow> loc | Some l \<Rightarrow> l)
      in if loc \<noteq> ''Tunisie'' then loc else keejob_location rest loc)"

text \<open>\<open>_parse_keejob_job\<close> (lines 294-333).\<close>

definition parse_keejob_job ::
  "string \<Rightarrow> keejob_card \<Rightarrow> link option option \<Rightarrow> job option" where
  "parse_keejob_job now job_card title_elem =
     (let job = new_job ''Keejob'' now;
          job = (case title_elem of
                   None \<Rightarrow> job
                 | Some None \<Rightarrow> job
                 | Some (Some title_link) \<Rightarrow>
                     job\<lparr>title := Some (Str (link_text title_link)),
                         url := Some (Str (absolute_url ''https://www.keejob.com''
                                             (link_href title_link)))\<rparr>);
          job = (case kc_company job_card of
                   None \<Rightarrow> job
                 | Some c \<Rightarrow> job\<lparr>company := Some (Str c)\<rparr>);
          job = job\<lparr>location := Some (Str (keejob_location (kc_strings job_card) ''Tunisie''))\<rparr>;
          job = (case kc_p job_card of
                   None \<Rightarrow> job
                 | Some d \<Rightarrow> job\<lparr>description := Some (Str (take 500 d))\<rparr>)
      in if truthy_get (title job) then Some job else None)"

text \<open>
  A row of the JobSpy data frame, read with \<open>job.get(column, default)\<close>: a column may be
  absent, and a cell of a column that is present may hold \<open>None\<close> or \<open>nan\<close>.
\<close>

record jobspy_row =
  jr_title :: "pyval option"
  jr_company :: "pyval option"
  jr_location :: "pyval option"
  jr_description :: "pyval option"
  jr_job_url :: "pyval option"
  jr_date_posted :: "pyval option"
  jr_is_remote :: "pyval option"

text \<open>
  \<open>_convert_jobspy_to_dict\<close> (lines 420-435): one dictionary per row. The title, the
  company, the location and the address are copied as they are; the description and the
  date go through \<open>str\<close>, the remote flag through \<open>bool\<close>.
\<close>

definition convert_jobspy_to_dict :: "string \<Rightarrow> jobspy_row list \<Rightarrow> string \<Rightarrow> job list" where
  "convert_jobspy_to_dict now jobs_df site_name =
     map (\<lambda>job.
            \<lparr>title = Some (get_val (Str ''N/A'') (jr_title job)),
             company = Some (get_val (Str ''N/A'') (jr_company job)),
             location = Some (get_val (Str ''N/A'') (jr_location job)),
             description = Some (Str (take 5000 (py_str (get_val (Str []) (jr_description job))))),
             url = Some (get_val (Str []) (jr_job_url job)),
             site = Some site_name,
             date_posted = Some (py_str (get_val (Str []) (jr_date_posted job))),
             is_remote = Some (Bool (truthy (get_val (Bool False) (jr_is_remote job)))),
             scraped_at = Some now,
             match_score = None\<rparr>) jobs_df"

section \<open>The world outside the program\<close>

text \<open>The three lists \<open>scrape_tanitjobs\<close> asks the page for, in the order it tries them.\<close>

record tanit_results =
  tr_job_items :: "tanit_card outcome list"
  tr_offers :: "tanit_card outcome list"
  tr_articles :: "tanit_card outcome list"

text \<open>The arguments of one call of JobSpy's \<open>scrape_jobs\<close>.\<close>

record jobspy_query =
  q_site_name :: "string list"
  q_search_term :: string
  q_location :: string
  q_country_indeed :: "string option"
  q_results_wanted :: int
  q_hours_old :: int
  q_linkedin_fetch_description :: bool

text \<open>
  Everything the scraper reads from outside: the two availability flags and the browser
  handle, the CV file, what each site answers for an address (the page, or an exception),
  what JobSpy answers for a query (an exception, \<open>None\<close>, or a data frame), and the clock.
  An element of a page that is \<open>Raised\<close> is one whose processing raises inside the
  loop's own \<open>try\<close>.
\<close>

record env =
  selenium_available :: bool
  driver :: bool
  jobspy_available :: bool
  read_cv :: "string \<Rightarrow> py_error + cv_data"
  emploi_page :: "string \<Rightarrow> emploi_card heading outcome list outcome"
  tanit_page :: "string \<Rightarrow> tanit_results outcome"
  keejob_page :: "string \<Rightarrow> keejob_card heading outcome list outcome"
  scrape_jobs :: "jobspy_query \<Rightarrow> jobspy_row list option outcome"
  clock :: string

text \<open>\<open>load_cv_profile\<close>: the parsed file, \<open>FileNotFoundError\<close> or \<open>ValueError\<close>.\<close>

definition load_cv_profile :: "env \<Rightarrow> string \<Rightarrow> py_error + cv_data" where
  "load_cv_profile e cv_json_path = read_cv e cv_json_path"

section \<open>Tunisia sites\<close>

text \<open>The loop of lines 139-147; an exception in the body is caught and the loop goes on.\<close>

fun emploi_loop :: "string \<Rightarrow> emploi_card heading outcome list \<Rightarrow> job list \<Rightarrow> job list" where
  "emploi_loop now [] jobs = jobs"
| "emploi_loop now (c # rest) jobs =
     (case c of
        Raised \<Rightarrow> emploi_loop now rest jobs
      | Returned h \<Rightarrow>
         (case h_parent h of
            None \<Rightarrow> emploi_loop now rest jobs
          | Some job_container \<Rightarrow>
             (case parse_emploi_tn_job now job_container (Some (h_link h)) of
                None \<Rightarrow> emploi_loop now rest jobs
              | Some job \<Rightarrow> emploi_loop now rest (jobs @ [job]))))"

definition emploi_url :: "string \<Rightarrow> string" where
  "emploi_url search_term =
     ''https://www.emploitunisie.com/recherche-jobs-tunisie/'' @ replace_char CHR '' '' ''%20'' search_term"

text \<open>\<open>scrape_emploi_tn\<close> (lines 123-153).\<close>

definition scrape_emploi_tn :: "env \<Rightarrow> string \<Rightarrow> int \<Rightarrow> job list" where
  "scrape_emploi_tn e search_term max_jobs =
     (if \<not> selenium_available e \<or> \<not> driver e then []
      else
        (case emploi_page e (emploi_url search_term) of
           Raised \<Rightarrow> []
         | Returned job_cards \<Rightarrow> emploi_loop (clock e) (py_take max_jobs job_cards) []))"

text \<open>The loop of lines 213-219.\<close>

fun tanit_loop :: "string \<Rightarrow> tanit_card outcome list \<Rightarrow> job list \<Rightarrow> job list" where
  "tanit_loop now [] jobs = jobs"
| "tanit_loop now (c # rest) jobs =
     (case c of
        Raised \<Rightarrow> tanit_loop now rest jobs
      | Returned job_card \<Rightarrow>
         (case parse_tanitjobs_job now job_card of
            None \<Rightarrow> tanit_loop now rest jobs
          | Some job \<Rightarrow> tanit_loop now rest (jobs @ [job])))"

text \<open>\<open>xs or ys\<close> on lists.\<close>

definition py_or :: "'a list \<Rightarrow> 'a list \<Rightarrow> 'a list" where
  "py_or xs ys = (if xs \<noteq> [] then xs else ys)"

definition tanit_url :: "string \<Rightarrow> string" where
  "tanit_url search_term = ''https://www.tanitjobs.com/recherche/?q='' @ search_term"

text \<open>\<open>scrape_tanitjobs\<close> (lines 193-225).\<close>

definition scrape_tanitjobs :: "env \<Rightarrow> string \<Rightarrow> int \<Rightarrow> job list" where
  "scrape_tanitjobs e search_term max_jobs =
     (if \<not> selenium_available e \<or> \<not> driver e then []
      else
        (case tanit_page e (tanit_url search_term) of
           Raised \<Rightarrow> []
         | Returned soup \<Rightarrow>
            (let job_cards =
                   py_or (py_take max_jobs (tr_job_items soup))
                     (py_or (py_take max_jobs (tr_offers soup))
                        (py_take max_jobs (tr_articles soup)))
             in tanit_loop (clock e) job_cards [])))"

text \<open>The loop of lines 278-286.\<close>

fun keejob_loop :: "string \<Rightarrow> keejob_card heading outcome list \<Rightarrow> job list \<Rightarrow> job list" where
  "keejob_loop now [] jobs = jobs"
| "keejob_loop now (c # rest) jobs =
     (case c of
        Raised \<Rightarrow> keejob_loop now rest jobs
      | Returned title_elem \<Rightarrow>
         (case h_parent title_elem of
            None \<Rightarrow> keejob_loop now rest jobs
          | Some job_container \<Rightarrow>
             (case parse_keejob_job now job_container (Some (h_link title_elem)) of
                None \<Rightarrow> keejob_loop now rest jobs
              | Some job \<Rightarrow> keejob_loop now rest (jobs @ [job]))))"

definition keejob_url :: "string \<Rightarrow> string" where
  "keejob_url search_term =
     ''https://www.keejob.com/offres-emploi/?keywords='' @ replace_char CHR '' '' ''+'' search_term"

text \<open>\<open>scrape_keejob\<close> (lines 262-292).\<close>

definition scrape_keejob :: "env \<Rightarrow> string \<Rightarrow> int \<Rightarrow> job list" where
  "scrape_keejob e search_term max_jobs =
     (if \<not> selenium_available e \<or> \<not> driver e then []
      else
        (case keejob_page e (keejob_url search_term) of
           Raised \<Rightarrow> []
         | Returned job_titles \<Rightarrow> keejob_loop (clock e) (py_take max_jobs job_titles) []))"

section \<open>International sites\<close>

text \<open>\<open>s or "Tunisia"\<close> for a string \<open>s\<close>.\<close>

definition or_tunisia :: "string \<Rightarrow> string" where
  "or_tunisia s = (if s \<noteq> [] then s else ''Tunisia'')"

text \<open>
  One of the four blocks of \<open>scrape_international_jobs\<close>: the call of \<open>scrape_jobs\<close> in
  its own \<open>try\<close>, and the postings it adds to \<open>all_jobs\<close>.
\<close>

definition jobspy_search :: "env \<Rightarrow> jobspy_query \<Rightarrow> string \<Rightarrow> job list" where
  "jobspy_search e q site_name =
     (case scrape_jobs e q of
        Raised \<Rightarrow> []
      | Returned None \<Rightarrow> []
      | Returned (Some jobs) \<Rightarrow>
          if jobs \<noteq> [] then convert_jobspy_to_dict (clock e) jobs site_name else [])"

definition linkedin_query :: "string \<Rightarrow> string \<Rightarrow> int \<Rightarrow> int \<Rightarrow> jobspy_query" where
  "linkedin_query search_term loc results_wanted hours_old =
     \<lparr>q_site_name = [''linkedin''], q_search_term = search_term, q_location = or_tunisia loc,
      q_country_indeed = None, q_results_wanted = results_wanted, q_hours_old = hours_old,
      q_linkedin_fetch_description = True\<rparr>"

definition indeed_usa_query :: "string \<Rightarrow> int \<Rightarrow> int \<Rightarrow> jobspy_query" where
  "indeed_usa_query search_term results_wanted hours_old =
     \<lparr>q_site_name = [''indeed''], q_search_term = search_term @ '' remote'', q_location = [],
      q_country_indeed = Some ''USA'', q_results_wanted = results_wanted,
      q_hours_old = hours_old, q_linkedin_fetch_description = False\<rparr>"

definition indeed_france_query :: "string \<Rightarrow> int \<Rightarrow> int \<Rightarrow> jobspy_query" where
  "indeed_france_query search_term results_wanted hours_old =
     \<lparr>q_site_name = [''indeed''], q_search_term = search_term, q_location = [],
      q_country_indeed = Some ''France'', q_results_wanted = results_wanted div 2,
      q_hours_old = hours_old, q_linkedin_fetch_description = False\<rparr>"

definition ziprecruiter_query :: "string \<Rightarrow> int \<Rightarrow> int \<Rightarrow> jobspy_query" where
  "ziprecruiter_query search_term results_wanted hours_old =
     \<lparr>q_site_name = [''zip_recruiter''], q_search_term = search_term @ '' remote'',
      q_location = [], q_country_indeed = None, q_results_wanted = results_wanted div 2,
      q_hours_old = hours_old, q_linkedin_fetch_description = False\<rparr>"

text \<open>\<open>scrape_international_jobs\<close> (lines 339-418).\<close>

definition scrape_international_jobs :: "env \<Rightarrow> string \<Rightarrow> string \<Rightarrow> int \<Rightarrow> int \<Rightarrow> job list" where
  "scrape_international_jobs e search_term loc results_wanted hours_old =
     (if \<not> jobspy_available e then []
      else
        (let all_jobs = [];
             all_jobs = all_jobs @
               jobspy_search e (linkedin_query search_term loc results_wanted hours_old) ''LinkedIn'';
             all_jobs = all_jobs @
               jobspy_search e (indeed_usa_query search_term results_wanted hours_old) ''Indeed USA'';
             all_jobs = all_jobs @
               jobspy_search e (indeed_france_query search_term results_wanted hours_old)
                 ''Indeed France'';
             all_jobs = all_jobs @
               jobspy_search e (ziprecruiter_query search_term results_wanted hours_old)
                 ''ZipRecruiter''
         in all_jobs))"

section \<open>Main workflow\<close>

text \<open>
  Lines 528-557 of \<open>scrape_and_match\<close>: the postings of all sources, in this order. The
  third argument is \<open>keywords['location']\<close>; in \<open>keywords['location'] or "Tunisia"\<close> the
  values \<open>None\<close> and the empty string are both false.
\<close>

definition collect_all_jobs :: "env \<Rightarrow> string \<Rightarrow> string nullable \<Rightarrow> int \<Rightarrow> job list" where
  "collect_all_jobs e search_term kw_loc hours_old =
     (let all_jobs = [];
          all_jobs =
            (if selenium_available e \<and> driver e
             then all_jobs @ scrape_emploi_tn e search_term 30
                           @ scrape_tanitjobs e search_term 30
                           @ scrape_keejob e search_term 30
             else all_jobs);
          all_jobs =
            (if jobspy_available e
             then all_jobs @ scrape_international_jobs e search_term
                               (or_tunisia (text_of kw_loc)) 50 hours_old
             else all_jobs)
      in all_jobs)"

text \<open>
  \<open>round(x, 0)\<close> on an exact value: the nearest integer, the even one of two equally near.
\<close>

definition round_half_even :: "rat \<Rightarrow> int" where
  "round_half_even x =
     (let f = \<lfloor>x\<rfloor>; d = x - of_int f
      in if d < 1 / 2 then f else if 1 / 2 < d then f + 1 else if even f then f else f + 1)"

text \<open>\<open>round(x, 2)\<close>.\<close>

definition round2 :: "rat \<Rightarrow> rat" where
  "round2 x = of_int (round_half_even (x * 100)) / 100"

text \<open>The loop of lines 574-579; the third argument is \<open>matched_jobs\<close>.\<close>

fun match_loop :: "cv_data \<Rightarrow> rat \<Rightarrow> job list \<Rightarrow> job list \<Rightarrow> py_error + job list" where
  "match_loop cv min_score matched_jobs [] = Inr matched_jobs"
| "match_loop cv min_score matched_jobs (job # rest) =
     bind_res (calculate_match_score job cv) (\<lambda>score.
       if min_score \<le> score
       then match_loop cv min_score (matched_jobs @ [job\<lparr>match_score := Some (round2 score)\<rparr>]) rest
       else match_loop cv min_score matched_jobs rest)"

text \<open>
  \<open>matched_jobs.sort(key=lambda x: x['match_score'], reverse=True)\<close>: the key
  \<open>x['match_score']\<close> raises \<open>KeyError\<close> on a dictionary without the field; a reverse
  sort is the stable ascending sort of the reversed list, reversed.
\<close>

definition stored_score :: "job \<Rightarrow> rat" where
  "stored_score x = the (match_score x)"

definition sort_by_score :: "job list \<Rightarrow> py_error + job list" where
  "sort_by_score js =
     (if list_all (\<lambda>x. match_score x \<noteq> None) js
      then Inr (rev (sort_key stored_score (rev js)))
      else Inl KeyError)"

text \<open>The key of lines 588-591; \<open>str\<close> makes a string of any value.\<close>

definition job_key :: "job \<Rightarrow> string \<times> string" where
  "job_key j =
     (lower (py_str (get_val (Str []) (title j))), lower (py_str (get_val (Str []) (company j))))"

text \<open>The loop of lines 587-594; the arguments are \<open>seen\<close> and \<open>unique_jobs\<close>.\<close>

fun dedup_loop :: "(string \<times> string) set \<Rightarrow> job list \<Rightarrow> job list \<Rightarrow> job list" where
  "dedup_loop seen unique_jobs [] = unique_jobs"
| "dedup_loop seen unique_jobs (job # rest) =
     (let key = job_key job
      in if key \<notin> seen then dedup_loop (insert key seen) (unique_jobs @ [job]) rest
         else dedup_loop seen unique_jobs rest)"

text \<open>Lines 570-598: scoring and filtering, sorting, removing duplicates, truncation.\<close>

definition rank_jobs :: "cv_data \<Rightarrow> rat \<Rightarrow> int \<Rightarrow> job list \<Rightarrow> py_error + job list" where
  "rank_jobs cv min_score max_results all_jobs =
     bind_res (match_loop cv min_score [] all_jobs) (\<lambda>matched_jobs.
       bind_res (sort_by_score matched_jobs) (\<lambda>sorted_jobs.
         let unique_jobs = dedup_loop {} [] sorted_jobs
         in Inr (py_take max_results unique_jobs)))"

text \<open>\<open>scrape_and_match\<close> (lines 498-598).\<close>

definition scrape_and_match :: "env \<Rightarrow> string \<Rightarrow> rat \<Rightarrow> int \<Rightarrow> int \<Rightarrow> py_error + job list" where
  "scrape_and_match e cv_json_path min_score max_results hours_old =
     bind_res (load_cv_profile e cv_json_path) (\<lambda>cv.
       bind_res (extract_search_keywords cv) (\<lambda>kw.
         bind_res (build_search_term kw) (\<lambda>search_term.
           let all_jobs = collect_all_jobs e search_term (kw_location kw) hours_old
           in if all_jobs = [] then Inr []
              else rank_jobs cv min_score max_results all_jobs)))"

section \<open>Notions used in the statements\<close>

text \<open>The value \<open>calculate_match_score\<close> returns for a posting.\<close>

definition score_of :: "cv_data \<Rightarrow> job \<Rightarrow> rat" where
  "score_of cv j = (case calculate_match_score j cv of Inl _ \<Rightarrow> 0 | Inr s \<Rightarrow> s)"

text \<open>The posting with its score stored as line 578 stores it.\<close>

definition with_score :: "cv_data \<Rightarrow> job \<Rightarrow> job" where
  "with_score cv j = j\<lparr>match_score := Some (round2 (score_of cv j))\<rparr>"

text \<open>The title of a posting is a non-empty string.\<close>

definition has_title :: "job \<Rightarrow> bool" where
  "has_title j = (case title j of Some (Str t) \<Rightarrow> t \<noteq> [] | _ \<Rightarrow> False)"

text \<open>
  The fields of a posting that \<open>calculate_match_score\<close> lower-cases, the title and the
  location, are absent or hold a string.
\<close>

definition plain_posting :: "job \<Rightarrow> bool" where
  "plain_posting j =
     ((case get_val (Str []) (title j) of Str _ \<Rightarrow> True | _ \<Rightarrow> False)
      \<and> (case get_val (Str []) (location j) of Str _ \<Rightarrow> True | _ \<Rightarrow> False))"

text \<open>
  The fields of a profile that \<open>calculate_match_score\<close> reads, the title, the search
  intent, the skills and the technical skills, are absent or hold a value, not \<open>null\<close>.
\<close>

definition plain_profile :: "cv_data \<Rightarrow> bool" where
  "plain_profile cv =
     (cv_title cv \<noteq> Some Null \<and> job_search_intent cv \<noteq> Some Null \<and> skills cv \<noteq> Some Null
      \<and> (case skills cv of Some (Val sk) \<Rightarrow> technical sk \<noteq> Some Null | _ \<Rightarrow> True))"

text \<open>A call returns a value: it raises nothing.\<close>

definition returns :: "py_error + 'a \<Rightarrow> bool" where
  "returns r = (case r of Inl _ \<Rightarrow> False | Inr _ \<Rightarrow> True)"

text \<open>Scoring every posting of a list raises nothing.\<close>

definition scorable :: "cv_data \<Rightarrow> job list \<Rightarrow> bool" where
  "scorable cv js = list_all (\<lambda>j. returns (calculate_match_score j cv)) js"

text \<open>The postings that pass the filter of line 577, in the order of collection.\<close>

definition matched_of :: "cv_data \<Rightarrow> rat \<Rightarrow> job list \<Rightarrow> job list" where
  "matched_of cv min_score all_jobs =
     map (with_score cv) (filter (\<lambda>j. min_score \<le> score_of cv j) all_jobs)"

text \<open>
  The technical skills a profile declares: the list under \<open>cv_data['skills']['technical']\<close>
  when both keys hold a value, the empty list otherwise.
\<close>

definition technical_skills :: "cv_data \<Rightarrow> string list" where
  "technical_skills cv =
     (case skills cv of
        Some (Val sk) \<Rightarrow> (case technical sk of Some (Val ts) \<Rightarrow> ts | _ \<Rightarrow> [])
      | _ \<Rightarrow> [])"

section \<open>The specification's wording\<close>

text \<open>
  The search term as the specification describes it: the title if it has at most four
  words, else the first domain, else the first skill, else the default term.
\<close>

definition spec_search_term :: "search_keywords \<Rightarrow> string" where
  "spec_search_term k =
     (if length (split (text_of (kw_title k))) \<le> 4 then text_of (kw_title k)
      else if items_of (kw_domains k) \<noteq> [] then hd (items_of (kw_domains k))
      else if kw_skills k \<noteq> [] then hd (kw_skills k)
      else ''informatique'')"

text \<open>
  The skill-overlap signal as the specification describes it: a skill counts 1 if the
  lower-cased phrase occurs in the posting text, else one half if one of its words longer
  than three characters does, else 0; the sum over the skills considered (at most the
  first 20) is divided by their number and multiplied by 35. The posting text is the
  lower-cased title and description, joined by one space as the source joins them.
\<close>

definition spec_skill_credit :: "string \<Rightarrow> string \<Rightarrow> rat" where
  "spec_skill_credit job_text skill =
     (if sublist (lower skill) job_text then 1
      else if \<exists>word \<in> set (split (lower skill)). 3 < length word \<and> sublist word job_text
      then 1 / 2
      else 0)"

definition spec_skill_overlap :: "job \<Rightarrow> string list \<Rightarrow> rat" where
  "spec_skill_overlap j ts =
     (let considered = take 20 ts
      in sum_list (map (spec_skill_credit (job_text_of j)) considered)
           / of_nat (length considered) * 35)"

text \<open>
  The sources of the collection phase in the order they are asked: the three Tunisia
  sites and the four searches of \<open>scrape_international_jobs\<close>.
\<close>

datatype source =
  Emploitunisie | Tanitjobs | Keejob | LinkedIn | IndeedUSA | IndeedFrance | ZipRecruiter

definition all_sources :: "source list" where
  "all_sources = [Emploitunisie, Tanitjobs, Keejob, LinkedIn, IndeedUSA, IndeedFrance, ZipRecruiter]"

definition raised :: "'a outcome \<Rightarrow> bool" where
  "raised r = (case r of Raised \<Rightarrow> True | Returned _ \<Rightarrow> False)"

text \<open>
  The fetch of a source fails: the call that leaves the program for that source, with the
  arguments \<open>scrape_and_match\<close> gives it, raises.
\<close>

definition fetch_fails :: "env \<Rightarrow> string \<Rightarrow> string nullable \<Rightarrow> int \<Rightarrow> source \<Rightarrow> bool" where
  "fetch_fails e search_term kw_loc hours_old s =
     (case s of
        Emploitunisie \<Rightarrow> raised (emploi_page e (emploi_url search_term))
      | Tanitjobs \<Rightarrow> raised (tanit_page e (tanit_url search_term))
      | Keejob \<Rightarrow> raised (keejob_page e (keejob_url search_term))
      | LinkedIn \<Rightarrow>
          raised (scrape_jobs e
                    (linkedin_query search_term (or_tunisia (text_of kw_loc)) 50 hours_old))
      | IndeedUSA \<Rightarrow> raised (scrape_jobs e (indeed_usa_query search_term 50 hours_old))
      | IndeedFrance \<Rightarrow> raised (scrape_jobs e (indeed_france_query search_term 50 hours_old))
      | ZipRecruiter \<Rightarrow> raised (scrape_jobs e (ziprecruiter_query search_term 50 hours_old)))"

text \<open>The postings one source yields in a run of \<open>scrape_and_match\<close>.\<close>

definition postings_of :: "env \<Rightarrow> string \<Rightarrow> string nullable \<Rightarrow> int \<Rightarrow> source \<Rightarrow> job list" where
  "postings_of e search_term kw_loc hours_old s =
     (case s of
        Emploitunisie \<Rightarrow> scrape_emploi_tn e search_term 30
      | Tanitjobs \<Rightarrow> scrape_tanitjobs e search_term 30
      | Keejob \<Rightarrow> scrape_keejob e search_term 30
      | LinkedIn \<Rightarrow>
          if jobspy_available e
          then jobspy_search e
                 (linkedin_query search_term (or_tunisia (text_of kw_loc)) 50 hours_old) ''LinkedIn''
          else []
      | IndeedUSA \<Rightarrow>
          if jobspy_available e
          then jobspy_search e (indeed_usa_query search_term 50 hours_old) ''Indeed USA''
          else []
      | IndeedFrance \<Rightarrow>
          if jobspy_available e
          then jobspy_search e (indeed_france_query search_term 50 hours_old) ''Indeed France''
          else []
      | ZipRecruiter \<Rightarrow>
          if jobspy_available e
          then jobspy_search e (ziprecruiter_query search_term 50 hours_old) ''ZipRecruiter''
          else [])"

section \<open>A sample run\<close>

text \<open>
  A profile with three technical skills and nothing else, and a world in which the
  browser is not available, LinkedIn answers three rows, Indeed USA one row, Indeed
  France raises and ZipRecruiter answers \<open>None\<close>.
\<close>

definition sample_cv :: cv_data where
  "sample_cv =
     \<lparr>cv_name = Some (Val ''A. Candidate''), cv_title = None, job_search_intent = None,
      skills = Some (Val \<lparr>technical = Some (Val [''Python'', ''Rust'', ''Golang''])\<rparr>)\<rparr>"

definition sample_keywords :: search_keywords where
  "sample_keywords =
     \<lparr>kw_title = Val [], kw_domains = Val [], kw_skills = [''Python'', ''Rust'', ''Golang''],
      kw_location = Val []\<rparr>"

definition sample_row :: "string \<Rightarrow> string \<Rightarrow> string \<Rightarrow> bool \<Rightarrow> jobspy_row" where
  "sample_row t c l r =
     \<lparr>jr_title = Some (Str t), jr_company = Some (Str c), jr_location = Some (Str l),
      jr_description = None, jr_job_url = None, jr_date_posted = None,
      jr_is_remote = Some (Bool r)\<rparr>"

definition sample_jobs :: "jobspy_query \<Rightarrow> jobspy_row list option outcome" where
  "sample_jobs q =
     (if q_site_name q = [''linkedin'']
      then Returned (Some [sample_row ''Python Rust developer'' ''Acme'' ''Paris'' False,
                           sample_row ''Sales Associate'' ''Shop'' ''Paris'' False,
                           sample_row ''python rust Developer'' ''ACME'' ''Tunis'' False])
      else if q_country_indeed q = Some ''USA''
      then Returned (Some [sample_row ''Golang engineer'' ''Beta'' ''Austin'' True])
      else if q_country_indeed q = Some ''France'' then Raised
      else Returned None)"

definition sample_env :: env where
  "sample_env =
     \<lparr>selenium_available = False, driver = False, jobspy_available = True,
      read_cv = (\<lambda>path. if path = ''cv.json'' then Inr sample_cv else Inl FileNotFoundError),
      emploi_page = (\<lambda>u. Raised), tanit_page = (\<lambda>u. Raised), keejob_page = (\<lambda>u. Raised),
      scrape_jobs = sample_jobs, clock = ''2024-01-01T00:00:00''\<rparr>"

text \<open>
  A row whose location cell is empty, and the world in which every search of JobSpy
  answers that row.
\<close>

definition empty_cell_row :: jobspy_row where
  "empty_cell_row = (sample_row ''Python developer'' ''Acme'' [] False)\<lparr>jr_location := Some PyNone\<rparr>"

definition empty_cell_env :: env where
  "empty_cell_env = sample_env\<lparr>scrape_jobs := (\<lambda>q. Returned (Some [empty_cell_row]))\<rparr>"

text \<open>The posting \<open>_convert_jobspy_to_dict\<close> makes of a sample row, with its stored score.\<close>

definition sample_job :: "string \<Rightarrow> string \<Rightarrow> string \<Rightarrow> bool \<Rightarrow> string \<Rightarrow> rat \<Rightarrow> job" where
  "sample_job t c l r s m =
     \<lparr>title = Some (Str t), company = Some (Str c), location = Some (Str l),
      description = Some (Str []), url = Some (Str []), site = Some s, date_posted = Some [],
      is_remote = Some (Bool r), scraped_at = Some ''2024-01-01T00:00:00'',
      match_score = Some m\<rparr>"

section \<open>The score, when there is one, is a number between 0 and 100\<close>

lemma scaled_quotient_eq:
  "0 < n \<Longrightarrow> bind_res (py_div x n) (\<lambda>q. Inr (q * k)) = Inr (x / n * k)"
  by (simp add: bind_res_def py_div_def)

lemma scaled_quotient_bounds:
  fixes x n k :: rat
  assumes "0 \<le> x" "x \<le> n" "0 < n" "0 \<le> k"
  shows "0 \<le> x / n * k \<and> x / n * k \<le> k"
proof -
  have q: "0 \<le> x / n" "x / n \<le> 1" using assms by (simp_all add: divide_le_eq)
  have "x / n * k \<le> 1 * k" using q(2) assms(4) by (rule mult_right_mono)
  moreover have "0 \<le> x / n * k" using q(1) assms(4) by (rule mult_nonneg_nonneg)
  ultimately show ?thesis by simp
qed

lemma scaled_fraction:
  fixes ks :: "'a list"
  assumes "ks \<noteq> []" "0 \<le> k"
  shows "\<exists>d. bind_res (py_div (of_nat (length (filter P ks))) (of_nat (length ks)))
               (\<lambda>q. Inr (q * k)) = Inr d \<and> 0 \<le> d \<and> d \<le> k"
proof -
  have n: "(0::rat) < of_nat (length ks)" using assms(1) by simp
  have "(of_nat (length (filter P ks)) :: rat) \<le> of_nat (length ks)" by simp
  then have "0 \<le> of_nat (length (filter P ks)) / of_nat (length ks) * k
             \<and> of_nat (length (filter P ks)) / of_nat (length ks) * k \<le> k"
    using n assms(2) by (intro scaled_quotient_bounds) simp_all
  then show ?thesis using n by (simp only: scaled_quotient_eq) blast
qed

lemma fraction_result:
  fixes ks :: "'a list"
  assumes "bind_res (py_div (of_nat (length (filter P ks))) (of_nat (length ks)))
             (\<lambda>q. Inr (q * k)) = Inr d"
    and "ks \<noteq> []" "0 \<le> k"
  shows "0 \<le> d \<and> d \<le> k"
  using scaled_fraction [OF assms(2,3), of P] assms(1) by auto

lemma domain_points_range:
  assumes "domain_points job_text cv = Inr d"
  shows "0 \<le> d \<and> d \<le> 30"
proof -
  define kws where "kws ds =
    concat (map (\<lambda>domain. map lower (filter (\<lambda>w. length w > 4) (split domain))) ds)"
    for ds :: "string list"
  show ?thesis
  proof (cases "\<exists>i ds. job_search_intent cv = Some (Val i) \<and> domains i = Some (Val ds)
                  \<and> ds \<noteq> [] \<and> kws ds \<noteq> []")
    case True
    then obtain i ds where i: "job_search_intent cv = Some (Val i)" "domains i = Some (Val ds)"
      "ds \<noteq> []" "kws ds \<noteq> []" by blast
    then have "domain_points job_text cv =
        bind_res (py_div (of_nat (length (filter (\<lambda>kw. sublist kw job_text) (kws ds))))
                    (of_nat (length (kws ds)))) (\<lambda>q. Inr (q * 30))"
      by (simp add: domain_points_def Let_def kws_def)
    with assms i(4) show ?thesis by (intro fraction_result [of _ "kws ds"]) simp_all
  next
    case False
    then have "domain_points job_text cv = Inr 0 \<or> domain_points job_text cv = Inl TypeError"
      unfolding domain_points_def Let_def kws_def
      by (auto split: option.splits nullable.splits)
    with assms show ?thesis by auto
  qed
qed

lemma skills_loop_bounds:
  "m \<le> skills_loop job_text xs m \<and> skills_loop job_text xs m \<le> m + of_nat (length xs)"
proof (induction xs arbitrary: m)
  case Nil
  show ?case by simp
next
  case (Cons x xs)
  have a: "m + 1 \<le> skills_loop job_text xs (m + 1)"
          "skills_loop job_text xs (m + 1) \<le> m + 1 + of_nat (length xs)"
    using Cons.IH [of "m + 1"] by simp_all
  have b: "m + 1 / 2 \<le> skills_loop job_text xs (m + 1 / 2)"
          "skills_loop job_text xs (m + 1 / 2) \<le> m + 1 / 2 + of_nat (length xs)"
    using Cons.IH [of "m + 1 / 2"] by simp_all
  have c: "m \<le> skills_loop job_text xs m"
          "skills_loop job_text xs m \<le> m + of_nat (length xs)"
    using Cons.IH [of m] by simp_all
  show ?case using a b c by (simp add: Let_def)
qed

lemma skill_points_value:
  assumes "skills cv = Some (Val sk)" "technical sk = Some (Val ts)" "ts \<noteq> []"
  shows "skill_points job_text cv =
           Inr (skills_loop job_text (take 20 ts) 0 / of_nat (length (take 20 ts)) * 35)"
proof -
  have "take 20 ts \<noteq> []" using assms(3) by simp
  then have n: "(0::rat) < of_nat (length (take 20 ts))" by (simp del: length_take)
  have "skill_points job_text cv =
          bind_res (py_div (skills_loop job_text (take 20 ts) 0) (of_nat (length (take 20 ts))))
            (\<lambda>q. Inr (q * 35))"
    using assms by (simp add: skill_points_def Let_def)
  then show ?thesis using n by (simp only: scaled_quotient_eq)
qed

lemma skill_points_range:
  assumes "skill_points job_text cv = Inr s"
  shows "0 \<le> s \<and> s \<le> 35"
proof (cases "\<exists>sk ts. skills cv = Some (Val sk) \<and> technical sk = Some (Val ts) \<and> ts \<noteq> []")
  case True
  then obtain sk ts where sk: "skills cv = Some (Val sk)" "technical sk = Some (Val ts)" "ts \<noteq> []"
    by blast
  have "take 20 ts \<noteq> []" using sk(3) by simp
  then have n: "(0::rat) < of_nat (length (take 20 ts))" by (simp del: length_take)
  have "0 \<le> skills_loop job_text (take 20 ts) 0"
    "skills_loop job_text (take 20 ts) 0 \<le> of_nat (length (take 20 ts))"
    using skills_loop_bounds [of 0 job_text "take 20 ts"] by simp_all
  then have "0 \<le> skills_loop job_text (take 20 ts) 0 / of_nat (length (take 20 ts)) * 35
     \<and> skills_loop job_text (take 20 ts) 0 / of_nat (length (take 20 ts)) * 35 \<le> 35"
    using n by (intro scaled_quotient_bounds) simp_all
  then show ?thesis using assms skill_points_value [OF sk, of job_text] by simp
next
  case False
  then show ?thesis
    using assms unfolding skill_points_def Let_def
    by (auto split: option.splits nullable.splits if_splits)
qed

lemma location_points_range:
  assumes "location_points j = Inr l"
  shows "0 \<le> l \<and> l \<le> 15"
  using assms
  by (auto simp: location_points_def bind_res_def lower_val_def split: sum.splits pyval.splits if_splits)

lemma title_points_range:
  assumes "title_points j cv = Inr t"
  shows "0 \<le> t \<and> t \<le> 10"
proof -
  obtain a b where ab: "lower_json (get_val (Val []) (cv_title cv)) = Inr a"
    "lower_val (get_val (Str []) (title j)) = Inr b"
    using assms by (auto simp: title_points_def bind_res_def split: sum.splits)
  define ws where "ws = filter (\<lambda>w. length w > 3) (split a)"
  show ?thesis
  proof (cases "a \<noteq> [] \<and> b \<noteq> [] \<and> ws \<noteq> []")
    case True
    then have "title_points j cv =
        bind_res (py_div (of_nat (length (filter (\<lambda>w. sublist w b) ws))) (of_nat (length ws)))
          (\<lambda>q. Inr (q * 10))"
      using ab by (simp add: title_points_def Let_def ws_def bind_res_def [of "Inr _"])
    with assms True show ?thesis by (intro fraction_result [of _ ws]) simp_all
  next
    case False
    then have "title_points j cv = Inr 0"
      using ab by (auto simp: title_points_def Let_def ws_def bind_res_def [of "Inr _"])
    with assms show ?thesis by simp
  qed
qed

text \<open>The score is the sum of the five signals, when each of them has a value.\<close>

lemma calculate_match_score_parts:
  "calculate_match_score j cv = Inr tot \<longleftrightarrow>
     (\<exists>d s l t. domain_points (job_text_of j) cv = Inr d
        \<and> skill_points (job_text_of j) cv = Inr s
        \<and> location_points j = Inr l
        \<and> title_points j cv = Inr t
        \<and> tot = (if truthy_get (title j) then 10 else 0) + d + s + l + t)"
proof
  assume run: "calculate_match_score j cv = Inr tot"
  then obtain d s l t where parts:
    "domain_points (job_text_of j) cv = Inr d" "skill_points (job_text_of j) cv = Inr s"
    "location_points j = Inr l" "title_points j cv = Inr t"
    by (auto simp: calculate_match_score_def bind_res_def Let_def split: sum.splits)
  have "0 \<le> d \<and> d \<le> 30" "0 \<le> s \<and> s \<le> 35" "0 \<le> l \<and> l \<le> 15" "0 \<le> t \<and> t \<le> 10"
    using parts domain_points_range skill_points_range location_points_range title_points_range
    by blast+
  then have "tot = (if truthy_get (title j) then 10 else 0) + d + s + l + t"
    using run parts by (auto simp: calculate_match_score_def bind_res_def Let_def split: if_splits)
  with parts show "\<exists>d s l t. domain_points (job_text_of j) cv = Inr d
        \<and> skill_points (job_text_of j) cv = Inr s
        \<and> location_points j = Inr l
        \<and> title_points j cv = Inr t
        \<and> tot = (if truthy_get (title j) then 10 else 0) + d + s + l + t"
    by blast
next
  assume "\<exists>d s l t. domain_points (job_text_of j) cv = Inr d
        \<and> skill_points (job_text_of j) cv = Inr s
        \<and> location_points j = Inr l
        \<and> title_points j cv = Inr t
        \<and> tot = (if truthy_get (title j) then 10 else 0) + d + s + l + t"
  then obtain d s l t where parts:
    "domain_points (job_text_of j) cv = Inr d" "skill_points (job_text_of j) cv = Inr s"
    "location_points j = Inr l" "title_points j cv = Inr t"
    "tot = (if truthy_get (title j) then 10 else 0) + d + s + l + t"
    by blast
  have "0 \<le> d \<and> d \<le> 30" "0 \<le> s \<and> s \<le> 35" "0 \<le> l \<and> l \<le> 15" "0 \<le> t \<and> t \<le> 10"
    using parts domain_points_range skill_points_range location_points_range title_points_range
    by blast+
  then show "calculate_match_score j cv = Inr tot"
    using parts by (simp add: calculate_match_score_def bind_res_def Let_def)
qed

lemma calculate_match_score_in_range:
  assumes "calculate_match_score j cv = Inr s"
  shows "0 \<le> s \<and> s \<le> 100"
proof -
  from assms obtain d s' l t where parts:
    "domain_points (job_text_of j) cv = Inr d" "skill_points (job_text_of j) cv = Inr s'"
    "location_points j = Inr l" "title_points j cv = Inr t"
    "s = (if truthy_get (title j) then 10 else 0) + d + s' + l + t"
    by (auto simp: calculate_match_score_parts)
  have "0 \<le> d \<and> d \<le> 30" "0 \<le> s' \<and> s' \<le> 35" "0 \<le> l \<and> l \<le> 15" "0 \<le> t \<and> t \<le> 10"
    using parts domain_points_range skill_points_range location_points_range title_points_range
    by blast+
  then show ?thesis using parts(5) by auto
qed

section \<open>Scoring loop, sorting and removal of duplicates\<close>

lemma returns_iff: "returns r \<longleftrightarrow> (\<exists>x. r = Inr x)"
  by (cases r) (simp_all add: returns_def)

lemma score_of_eq: "returns (calculate_match_score j cv) \<Longrightarrow> calculate_match_score j cv = Inr (score_of cv j)"
  by (auto simp: returns_iff score_of_def)

lemma calculate_match_score_ignores_field:
  "calculate_match_score (j\<lparr>match_score := m\<rparr>) cv = calculate_match_score j cv"
  by (simp add: calculate_match_score_def job_text_of_def location_points_def title_points_def)

lemma score_of_with_score: "score_of cv (with_score cv' j) = score_of cv j"
  by (simp add: score_of_def with_score_def calculate_match_score_ignores_field)


lemma stored_score_with_score: "stored_score (with_score cv j) = round2 (score_of cv j)"
  by (simp add: stored_score_def with_score_def)

lemma scorable_Cons:
  "scorable cv (j # js) \<longleftrightarrow> returns (calculate_match_score j cv) \<and> scorable cv js"
  by (simp add: scorable_def)

lemma scorable_member: "scorable cv js \<Longrightarrow> j \<in> set js \<Longrightarrow> returns (calculate_match_score j cv)"
  by (simp add: scorable_def list_all_iff)

lemma match_loop_eq:
  "scorable cv js \<Longrightarrow> match_loop cv min_score acc js = Inr (acc @ matched_of cv min_score js)"
proof (induction js arbitrary: acc)
  case Nil
  show ?case by (simp add: matched_of_def)
next
  case (Cons j js)
  from Cons.prems have r: "returns (calculate_match_score j cv)" and js: "scorable cv js"
    by (simp_all add: scorable_Cons)
  from r have j: "calculate_match_score j cv = Inr (score_of cv j)" by (rule score_of_eq)
  show ?case
    by (simp add: j bind_res_def Cons.IH [OF js] matched_of_def with_score_def)
qed

lemma match_loop_returns:
  "match_loop cv min_score acc js = Inr x \<Longrightarrow> scorable cv js"
proof (induction js arbitrary: acc)
  case Nil
  show ?case by (simp add: scorable_def)
next
  case (Cons j js)
  from Cons.prems obtain s where s: "calculate_match_score j cv = Inr s"
    by (auto simp: bind_res_def split: sum.splits)
  with Cons.prems have "\<exists>acc'. match_loop cv min_score acc' js = Inr x"
    by (auto simp: bind_res_def split: if_splits)
  then have "scorable cv js" using Cons.IH by blast
  with s show ?case by (simp add: scorable_Cons returns_def)
qed

lemma matched_have_score: "list_all (\<lambda>x. match_score x \<noteq> None) (matched_of cv min_score js)"
  by (simp add: matched_of_def list_all_iff with_score_def)

lemma sort_by_score_matched:
  "sort_by_score (matched_of cv m js) = Inr (rev (sort_key stored_score (rev (matched_of cv m js))))"
  using matched_have_score [of cv m js] by (simp add: sort_by_score_def)

lemma rank_jobs_eq:
  "scorable cv js \<Longrightarrow>
   rank_jobs cv m n js =
     Inr (py_take n (dedup_loop {} [] (rev (sort_key stored_score (rev (matched_of cv m js))))))"
  by (simp add: rank_jobs_def match_loop_eq bind_res_def sort_by_score_matched)

lemma rank_jobs_returns: "rank_jobs cv m n js = Inr x \<Longrightarrow> scorable cv js"
  by (auto simp: rank_jobs_def bind_res_def split: sum.splits dest: match_loop_returns)

text \<open>
  When the profile loads, the keywords are extracted and the search term is built,
  \<open>scrape_and_match\<close> returns a list exactly when scoring each collected posting raises
  nothing, and the list is the ranking of the collected postings.
\<close>

lemma scrape_and_match_eq:
  assumes "load_cv_profile e p = Inr cv"
    and "extract_search_keywords cv = Inr kw"
    and "build_search_term kw = Inr t"
    and "scorable cv (collect_all_jobs e t (kw_location kw) h)"
  shows "scrape_and_match e p m n h =
           Inr (py_take n (dedup_loop {} []
                  (rev (sort_key stored_score
                     (rev (matched_of cv m (collect_all_jobs e t (kw_location kw) h)))))))"
  using assms
  by (simp add: scrape_and_match_def bind_res_def Let_def rank_jobs_eq matched_of_def py_take_def)

lemma scrape_and_match_returns:
  assumes "load_cv_profile e p = Inr cv"
    and "extract_search_keywords cv = Inr kw"
    and "build_search_term kw = Inr t"
  shows "returns (scrape_and_match e p m n h)
           \<longleftrightarrow> scorable cv (collect_all_jobs e t (kw_location kw) h)"
proof
  assume "returns (scrape_and_match e p m n h)"
  then obtain res where res: "scrape_and_match e p m n h = Inr res" by (auto simp: returns_iff)
  show "scorable cv (collect_all_jobs e t (kw_location kw) h)"
  proof (cases "collect_all_jobs e t (kw_location kw) h = []")
    case True
    then show ?thesis by (simp add: scorable_def)
  next
    case False
    with res assms have "rank_jobs cv m n (collect_all_jobs e t (kw_location kw) h) = Inr res"
      by (simp add: scrape_and_match_def bind_res_def Let_def)
    then show ?thesis by (rule rank_jobs_returns)
  qed
next
  assume "scorable cv (collect_all_jobs e t (kw_location kw) h)"
  then show "returns (scrape_and_match e p m n h)"
    using scrape_and_match_eq [OF assms, of h m n] by (simp add: returns_def)
qed

lemma rev_sort_descending:
  "sorted_wrt (\<lambda>a b. f b \<le> f a) (rev (sort_key f xs))"
proof -
  have "sorted (map f (sort_key f xs))" by (rule sorted_sort_key)
  then have "sorted_wrt (\<lambda>a b. f a \<le> f b) (sort_key f xs)" by (simp add: sorted_map)
  then show ?thesis by (simp add: sorted_wrt_rev)
qed

lemma rev_sort_stable:
  "filter (\<lambda>y. f y = k) (rev (sort_key f (rev xs))) = filter (\<lambda>y. f y = k) xs"
proof -
  have "filter (\<lambda>y. f y = k) (rev (sort_key f (rev xs))) =
        rev (filter (\<lambda>y. f y = k) (sort_key f (rev xs)))" by (simp add: rev_filter)
  also have "\<dots> = rev (filter (\<lambda>y. f y = k) (rev xs))" by (simp only: sort_key_stable)
  also have "\<dots> = filter (\<lambda>y. f y = k) xs" by (simp add: rev_filter)
  finally show ?thesis .
qed

lemma subseq_set: "subseq xs ys \<Longrightarrow> set xs \<subseteq> set ys"
  by (induction rule: list_emb.induct) auto

lemma sorted_wrt_subseq: "subseq xs ys \<Longrightarrow> sorted_wrt P ys \<Longrightarrow> sorted_wrt P xs"
proof (induction rule: list_emb.induct)
  case (list_emb_Cons2 x y xs ys)
  then have "set xs \<subseteq> set ys" using subseq_set by blast
  with list_emb_Cons2 show ?case by auto
qed auto


lemma dedup_loop_acc: "dedup_loop seen acc js = acc @ dedup_loop seen [] js"
proof (induction js arbitrary: seen acc)
  case Nil
  show ?case by simp
next
  case (Cons j js)
  show ?case
    using Cons.IH [of "insert (job_key j) seen" "acc @ [j]"] Cons.IH [of "insert (job_key j) seen" "[j]"]
      Cons.IH [of seen acc]
    by (simp add: Let_def)
qed

lemma dedup_loop_Cons:
  "dedup_loop seen [] (j # js) =
     (if job_key j \<notin> seen then j # dedup_loop (insert (job_key j) seen) [] js
      else dedup_loop seen [] js)"
  using dedup_loop_acc [of "insert (job_key j) seen" "[j]" js] by (simp add: Let_def)

lemma dedup_loop_subseq: "subseq (dedup_loop seen [] js) js"
  by (induction js arbitrary: seen)
     (auto simp: dedup_loop_Cons simp del: dedup_loop.simps(2))




lemma py_take_prefix: "prefix (py_take n xs) xs"
  by (simp add: py_take_def take_is_prefix)

lemma py_take_subseq: "subseq (py_take n xs) xs"
  using py_take_prefix by (rule prefix_imp_subseq)

section \<open>Rounding\<close>

lemma round_half_even_mono: "x \<le> y \<Longrightarrow> round_half_even x \<le> round_half_even y"
proof -
  assume xy: "x \<le> y"
  have fx: "of_int \<lfloor>x\<rfloor> \<le> x" "x < of_int \<lfloor>x\<rfloor> + 1" by linarith+
  have fy: "of_int \<lfloor>y\<rfloor> \<le> y" "y < of_int \<lfloor>y\<rfloor> + 1" by linarith+
  have lo: "\<lfloor>x\<rfloor> \<le> round_half_even x" "round_half_even x \<le> \<lfloor>x\<rfloor> + 1"
    by (simp_all add: round_half_even_def Let_def)
  have loy: "\<lfloor>y\<rfloor> \<le> round_half_even y"
    by (simp add: round_half_even_def Let_def)
  have le: "\<lfloor>x\<rfloor> \<le> \<lfloor>y\<rfloor>" using xy by (rule floor_mono)
  show ?thesis
  proof (cases "\<lfloor>x\<rfloor> = \<lfloor>y\<rfloor>")
    case True
    then have "x - of_int \<lfloor>x\<rfloor> \<le> y - of_int \<lfloor>y\<rfloor>" using xy by simp
    then show ?thesis using True by (auto simp: round_half_even_def Let_def)
  next
    case False
    with le have "\<lfloor>x\<rfloor> + 1 \<le> \<lfloor>y\<rfloor>" by simp
    with lo loy show ?thesis by linarith
  qed
qed

lemma round2_mono: "x \<le> y \<Longrightarrow> round2 x \<le> round2 y"
proof -
  assume "x \<le> y"
  then have "x * 100 \<le> y * 100" by simp
  then have "round_half_even (x * 100) \<le> round_half_even (y * 100)"
    by (rule round_half_even_mono)
  then show ?thesis by (simp add: round2_def divide_right_mono)
qed

lemma round2_fixed: "round2 (of_int n / 100) = of_int n / 100"
  by (simp add: round2_def round_half_even_def)

section \<open>The ranked list\<close>

lemma subseq_trans3: "subseq xs ys \<Longrightarrow> subseq ys zs \<Longrightarrow> subseq xs zs"
  by (rule subseq_order.order_trans)

lemma result_subseq_sorted:
  "subseq (py_take n (dedup_loop {} [] xs)) xs"
  using py_take_subseq dedup_loop_subseq by (rule subseq_trans3)

lemma matched_subseq: "subseq (matched_of cv m js) (map (with_score cv) js)"
  unfolding matched_of_def by (rule subseq_map) simp




lemma set_rev_sort: "set (rev (sort_key f (rev xs))) = set xs"
  by simp

text \<open>
  Claim C2. When the profile loads, the search term is built and the scoring of the
  collected postings raises nothing, which is exactly when \<open>scrape_and_match\<close> returns a
  list (lemma \<open>scrape_and_match_returns\<close>), the list is in descending order of the stored
  \<open>match_score\<close>, and for every score the entries that carry it stand in the order in which
  their postings were collected (they form a subsequence of the collected list); since the
  list is the one returned, this holds after the removal of duplicates and the truncation.
\<close>

theorem scrape_and_match_sorted_stable:
  assumes "load_cv_profile e p = Inr cv"
    and "extract_search_keywords cv = Inr kw"
    and "build_search_term kw = Inr t"
    and "all_jobs = collect_all_jobs e t (kw_location kw) h"
    and "scorable cv all_jobs"
  shows "\<exists>res. scrape_and_match e p m n h = Inr res
           \<and> sorted_wrt (\<lambda>a b. stored_score b \<le> stored_score a) res
           \<and> (\<forall>v. subseq (filter (\<lambda>j. stored_score j = v) res) (map (with_score cv) all_jobs))"
proof -
  define matched where "matched = matched_of cv m all_jobs"
  define sorted_jobs where "sorted_jobs = rev (sort_key stored_score (rev matched))"
  define res where "res = py_take n (dedup_loop {} [] sorted_jobs)"
  have run: "scrape_and_match e p m n h = Inr res"
    using scrape_and_match_eq [OF assms(1,2,3), of h m n] assms(4,5)
    by (simp add: res_def sorted_jobs_def matched_def)
  have sub: "subseq res sorted_jobs"
    unfolding res_def by (rule result_subseq_sorted)
  have "sorted_wrt (\<lambda>a b. stored_score b \<le> stored_score a) sorted_jobs"
    unfolding sorted_jobs_def by (rule rev_sort_descending)
  with sub have desc: "sorted_wrt (\<lambda>a b. stored_score b \<le> stored_score a) res"
    by (rule sorted_wrt_subseq)
  have stable: "subseq (filter (\<lambda>j. stored_score j = v) res) (map (with_score cv) all_jobs)" for v
  proof -
    have "subseq (filter (\<lambda>j. stored_score j = v) res) (filter (\<lambda>j. stored_score j = v) sorted_jobs)"
      using sub by (rule subseq_filter)
    also have "filter (\<lambda>j. stored_score j = v) sorted_jobs = filter (\<lambda>j. stored_score j = v) matched"
      unfolding sorted_jobs_def by (rule rev_sort_stable)
    finally have "subseq (filter (\<lambda>j. stored_score j = v) res) matched"
      by (rule subseq_trans3) simp
    then show ?thesis
      unfolding matched_def using matched_subseq by (rule subseq_trans3)
  qed
  from run desc stable show ?thesis by blast
qed

lemma sample_load: "load_cv_profile sample_env ''cv.json'' = Inr sample_cv"
  by (simp add: load_cv_profile_def sample_env_def)

lemma sample_extract: "extract_search_keywords sample_cv = Inr sample_keywords"
  by code_simp

lemma sample_term: "build_search_term sample_keywords = Inr ''Python''"
  by code_simp


lemma sample_scorable:
  "scorable sample_cv (collect_all_jobs sample_env ''Python'' (kw_location sample_keywords) 720)"
  by code_simp

lemma sample_run:
  "scrape_and_match sample_env ''cv.json'' 15 50 720 =
     Inr [sample_job ''python rust Developer'' ''ACME'' ''Tunis'' False ''LinkedIn'' (4833 / 100),
          sample_job ''Golang engineer'' ''Beta'' ''Austin'' True ''Indeed USA'' (3667 / 100)]"
  by code_simp

theorem scrape_and_match_sorted_stable_witness:
  "load_cv_profile sample_env ''cv.json'' = Inr sample_cv
   \<and> extract_search_keywords sample_cv = Inr sample_keywords
   \<and> build_search_term sample_keywords = Inr ''Python''
   \<and> sorted_wrt (\<lambda>a b. stored_score b \<le> stored_score a)
        [sample_job ''python rust Developer'' ''ACME'' ''Tunis'' False ''LinkedIn'' (4833 / 100),
         sample_job ''Golang engineer'' ''Beta'' ''Austin'' True ''Indeed USA'' (3667 / 100)]
   \<and> (\<forall>v. subseq (filter (\<lambda>j. stored_score j = v)
                [sample_job ''python rust Developer'' ''ACME'' ''Tunis'' False ''LinkedIn'' (4833 / 100),
                 sample_job ''Golang engineer'' ''Beta'' ''Austin'' True ''Indeed USA'' (3667 / 100)])
           (map (with_score sample_cv)
              (collect_all_jobs sample_env ''Python''
                 (kw_location sample_keywords) 720)))"
  using sample_load sample_extract sample_term
    scrape_and_match_sorted_stable [OF sample_load sample_extract sample_term refl sample_scorable, of 15 50]
  by (simp add: sample_run)

section \<open>Duplicates, the score threshold and the stored score\<close>

lemma matched_of_member:
  "r \<in> set (matched_of cv m js) \<longleftrightarrow> (\<exists>j\<in>set js. m \<le> score_of cv j \<and> r = with_score cv j)"
  by (auto simp: matched_of_def)

lemma result_members:
  assumes "r \<in> set (py_take n (dedup_loop {} [] (rev (sort_key stored_score (rev (matched_of cv m js))))))"
  shows "\<exists>j\<in>set js. m \<le> score_of cv j \<and> r = with_score cv j"
proof -
  have "set (py_take n (dedup_loop {} [] (rev (sort_key stored_score (rev (matched_of cv m js))))))
          \<subseteq> set (rev (sort_key stored_score (rev (matched_of cv m js))))"
    using result_subseq_sorted by (rule subseq_set)
  with assms have "r \<in> set (matched_of cv m js)" by auto
  then show ?thesis by (simp add: matched_of_member)
qed



text \<open>
  Claim C4, as stated, fails: the filter of line 577 compares the score before rounding,
  the field holds the score rounded to two decimals. In the sample run with
  \<open>min_score = 48.333\<close> the posting of score \<open>145/3\<close> passes and is stored as \<open>48.33\<close>.
\<close>

theorem stored_score_below_min_score:
  "scrape_and_match sample_env ''cv.json'' (48333 / 1000) 50 720 =
     Inr [sample_job ''python rust Developer'' ''ACME'' ''Tunis'' False ''LinkedIn'' (4833 / 100)]
   \<and> stored_score (sample_job ''python rust Developer'' ''ACME'' ''Tunis'' False ''LinkedIn'' (4833 / 100))
       < 48333 / 1000"
  by code_simp

text \<open>
  Claim C4, amended. When the profile loads, the search term is built and the scoring of
  the collected postings raises nothing, which is exactly when \<open>scrape_and_match\<close> returns
  a list, no entry of the list has a score, as \<open>calculate_match_score\<close> computes it,
  strictly less than \<open>min_score\<close>; its stored \<open>match_score\<close> is not less than \<open>min_score\<close>
  rounded to two decimals.
\<close>

theorem scrape_and_match_min_score:
  assumes "load_cv_profile e p = Inr cv"
    and "extract_search_keywords cv = Inr kw"
    and "build_search_term kw = Inr t"
    and "scorable cv (collect_all_jobs e t (kw_location kw) h)"
  shows "\<exists>res. scrape_and_match e p m n h = Inr res
           \<and> (\<forall>r\<in>set res. \<exists>s. calculate_match_score r cv = Inr s \<and> \<not> s < m
                   \<and> \<not> stored_score r < round2 m)"
proof -
  define all_jobs where "all_jobs = collect_all_jobs e t (kw_location kw) h"
  define res where
    "res = py_take n (dedup_loop {} [] (rev (sort_key stored_score (rev (matched_of cv m all_jobs)))))"
  have run: "scrape_and_match e p m n h = Inr res"
    using scrape_and_match_eq [OF assms, of m n] by (simp add: res_def all_jobs_def)
  have "\<exists>s. calculate_match_score r cv = Inr s \<and> \<not> s < m \<and> \<not> stored_score r < round2 m"
    if "r \<in> set res" for r
  proof -
    from that obtain j where j: "j \<in> set all_jobs" "m \<le> score_of cv j" "r = with_score cv j"
      unfolding res_def using result_members by blast
    from assms(4) j(1) have "returns (calculate_match_score j cv)"
      unfolding all_jobs_def by (rule scorable_member)
    then have "calculate_match_score j cv = Inr (score_of cv j)" by (rule score_of_eq)
    then have "calculate_match_score r cv = Inr (score_of cv j)"
      using j(3) by (simp add: with_score_def calculate_match_score_ignores_field)
    moreover have "round2 m \<le> stored_score r"
      using round2_mono [OF j(2)] j(3) by (simp add: stored_score_with_score)
    ultimately show ?thesis using j(2) by auto
  qed
  with run show ?thesis by blast
qed

theorem scrape_and_match_min_score_witness:
  "load_cv_profile sample_env ''cv.json'' = Inr sample_cv
   \<and> extract_search_keywords sample_cv = Inr sample_keywords
   \<and> build_search_term sample_keywords = Inr ''Python''
   \<and> scrape_and_match sample_env ''cv.json'' (48333 / 1000) 50 720 =
       Inr [sample_job ''python rust Developer'' ''ACME'' ''Tunis'' False ''LinkedIn'' (4833 / 100)]
   \<and> (\<exists>s. calculate_match_score
             (sample_job ''python rust Developer'' ''ACME'' ''Tunis'' False ''LinkedIn'' (4833 / 100))
             sample_cv = Inr s
         \<and> \<not> s < 48333 / 1000
         \<and> \<not> stored_score (sample_job ''python rust Developer'' ''ACME'' ''Tunis'' False ''LinkedIn''
                              (4833 / 100)) < round2 (48333 / 1000))"
proof -
  have run: "scrape_and_match sample_env ''cv.json'' (48333 / 1000) 50 720 =
     Inr [sample_job ''python rust Developer'' ''ACME'' ''Tunis'' False ''LinkedIn'' (4833 / 100)]"
    by code_simp
  show ?thesis
    using sample_load sample_extract sample_term
      scrape_and_match_min_score [OF sample_load sample_extract sample_term sample_scorable, of "48333 / 1000" 50]
    by (simp add: run)
qed

text \<open>
  Claim C10. When the profile loads, the search term is built and the scoring of the
  collected postings raises nothing, which is exactly when \<open>scrape_and_match\<close> returns a
  list, every entry of the list is a collected posting whose \<open>match_score\<close> field holds the
  value of \<open>calculate_match_score\<close> for it rounded to two decimals, and the postings the
  filter keeps are exactly those whose value before rounding is at least \<open>min_score\<close>.
\<close>

theorem scrape_and_match_stores_rounded_score:
  assumes "load_cv_profile e p = Inr cv"
    and "extract_search_keywords cv = Inr kw"
    and "build_search_term kw = Inr t"
    and "all_jobs = collect_all_jobs e t (kw_location kw) h"
    and "scorable cv all_jobs"
  shows "\<exists>res. scrape_and_match e p m n h = Inr res
           \<and> (\<forall>r\<in>set res. \<exists>s. calculate_match_score r cv = Inr s
                   \<and> match_score r = Some (round2 s))
           \<and> (\<forall>r\<in>set res. \<exists>j\<in>set all_jobs. \<exists>s. calculate_match_score j cv = Inr s
                   \<and> m \<le> s \<and> r = j\<lparr>match_score := Some (round2 s)\<rparr>)
           \<and> match_loop cv m [] all_jobs =
               Inr (map (\<lambda>j. j\<lparr>match_score := Some (round2 (score_of cv j))\<rparr>)
                      (filter (\<lambda>j. m \<le> score_of cv j) all_jobs))"
proof -
  define res where
    "res = py_take n (dedup_loop {} [] (rev (sort_key stored_score (rev (matched_of cv m all_jobs)))))"
  have run: "scrape_and_match e p m n h = Inr res"
    using scrape_and_match_eq [OF assms(1,2,3), of h m n] assms(4,5) by (simp add: res_def)
  have origin: "\<exists>j\<in>set all_jobs. \<exists>s. calculate_match_score j cv = Inr s
                   \<and> m \<le> s \<and> r = j\<lparr>match_score := Some (round2 s)\<rparr>"
    if "r \<in> set res" for r
  proof -
    from that obtain j where j: "j \<in> set all_jobs" "m \<le> score_of cv j" "r = with_score cv j"
      unfolding res_def using result_members by blast
    moreover from assms(5) j(1) have "returns (calculate_match_score j cv)"
      by (rule scorable_member)
    then have "calculate_match_score j cv = Inr (score_of cv j)" by (rule score_of_eq)
    ultimately show ?thesis by (auto simp: with_score_def)
  qed
  have field: "\<exists>s. calculate_match_score r cv = Inr s \<and> match_score r = Some (round2 s)"
    if "r \<in> set res" for r
  proof -
    from origin [OF that] obtain j s where
      "calculate_match_score j cv = Inr s" "r = j\<lparr>match_score := Some (round2 s)\<rparr>" by blast
    then show ?thesis by (simp add: calculate_match_score_ignores_field)
  qed
  have "match_loop cv m [] all_jobs =
          Inr (map (\<lambda>j. j\<lparr>match_score := Some (round2 (score_of cv j))\<rparr>)
                 (filter (\<lambda>j. m \<le> score_of cv j) all_jobs))"
    using assms(5) by (simp add: match_loop_eq matched_of_def with_score_def)
  with run origin field show ?thesis by blast
qed

text \<open>
  In the sample run with \<open>min_score = 36.67\<close> the posting of score \<open>110/3\<close> is dropped,
  although that score rounded to two decimals is \<open>36.67\<close>.
\<close>

theorem scrape_and_match_stores_rounded_score_witness:
  "load_cv_profile sample_env ''cv.json'' = Inr sample_cv
   \<and> extract_search_keywords sample_cv = Inr sample_keywords
   \<and> build_search_term sample_keywords = Inr ''Python''
   \<and> scrape_and_match sample_env ''cv.json'' (3667 / 100) 50 720 =
       Inr [sample_job ''python rust Developer'' ''ACME'' ''Tunis'' False ''LinkedIn'' (4833 / 100)]
   \<and> (\<exists>s. calculate_match_score
             (sample_job ''python rust Developer'' ''ACME'' ''Tunis'' False ''LinkedIn'' (4833 / 100))
             sample_cv = Inr s
         \<and> match_score (sample_job ''python rust Developer'' ''ACME'' ''Tunis'' False ''LinkedIn''
                          (4833 / 100)) = Some (round2 s))
   \<and> calculate_match_score
         (sample_job ''Golang engineer'' ''Beta'' ''Austin'' True ''Indeed USA'' 0) sample_cv =
       Inr (110 / 3)
   \<and> round2 (110 / 3) = 3667 / 100"
proof -
  have run: "scrape_and_match sample_env ''cv.json'' (3667 / 100) 50 720 =
     Inr [sample_job ''python rust Developer'' ''ACME'' ''Tunis'' False ''LinkedIn'' (4833 / 100)]"
    by code_simp
  have dropped: "calculate_match_score
         (sample_job ''Golang engineer'' ''Beta'' ''Austin'' True ''Indeed USA'' 0) sample_cv =
       Inr (110 / 3)"
    "round2 (110 / 3) = 3667 / 100"
    by code_simp+
  show ?thesis
    using sample_load sample_extract sample_term dropped
      scrape_and_match_stores_rounded_score [OF sample_load sample_extract sample_term refl sample_scorable, of "3667 / 100" 50]
    by (simp add: run)
qed

section \<open>Titles of the collected postings\<close>

lemma parse_emploi_tn_job_title:
  "parse_emploi_tn_job now job_card title_elem = Some j \<Longrightarrow> has_title j"
  by (auto simp: parse_emploi_tn_job_def Let_def new_job_def has_title_def truthy_get_def truthy_def
      get_val_def split: if_splits option.splits)

lemma parse_tanitjobs_job_title:
  "parse_tanitjobs_job now job_card = Some j \<Longrightarrow> has_title j"
  by (auto simp: parse_tanitjobs_job_def Let_def new_job_def has_title_def truthy_get_def truthy_def
      get_val_def split: if_splits option.splits)

lemma parse_keejob_job_title:
  "parse_keejob_job now job_card title_elem = Some j \<Longrightarrow> has_title j"
  by (auto simp: parse_keejob_job_def Let_def new_job_def has_title_def truthy_get_def truthy_def
      get_val_def split: if_splits option.splits)

lemma emploi_loop_titles:
  "\<forall>j\<in>set jobs. has_title j \<Longrightarrow>
   \<forall>j\<in>set (emploi_loop now cs jobs). has_title j"
proof (induction cs arbitrary: jobs)
  case Nil
  then show ?case by simp
next
  case (Cons c cs)
  show ?case
  proof (cases c)
    case Raised
    with Cons show ?thesis by simp
  next
    case (Returned hd)
    show ?thesis
    proof (cases "h_parent hd")
      case None
      with Returned Cons show ?thesis by simp
    next
      case (Some cont)
      show ?thesis
      proof (cases "parse_emploi_tn_job now cont (Some (h_link hd))")
        case None
        with Returned Some Cons show ?thesis by simp
      next
        case job: (Some job)
        then have "has_title job" by (rule parse_emploi_tn_job_title)
        with Cons.prems have "\<forall>j\<in>set (jobs @ [job]). has_title j" by auto
        then have "\<forall>j\<in>set (emploi_loop now cs (jobs @ [job])). has_title j"
          by (rule Cons.IH)
        with Returned Some job show ?thesis by simp
      qed
    qed
  qed
qed

lemma tanit_loop_titles:
  "\<forall>j\<in>set jobs. has_title j \<Longrightarrow>
   \<forall>j\<in>set (tanit_loop now cs jobs). has_title j"
proof (induction cs arbitrary: jobs)
  case Nil
  then show ?case by simp
next
  case (Cons c cs)
  show ?case
  proof (cases c)
    case Raised
    with Cons show ?thesis by simp
  next
    case (Returned cont)
    show ?thesis
    proof (cases "parse_tanitjobs_job now cont")
      case None
      with Returned Cons show ?thesis by simp
    next
      case job: (Some job)
      then have "has_title job" by (rule parse_tanitjobs_job_title)
      with Cons.prems have "\<forall>j\<in>set (jobs @ [job]). has_title j" by auto
      then have "\<forall>j\<in>set (tanit_loop now cs (jobs @ [job])). has_title j"
        by (rule Cons.IH)
      with Returned job show ?thesis by simp
    qed
  qed
qed

lemma keejob_loop_titles:
  "\<forall>j\<in>set jobs. has_title j \<Longrightarrow>
   \<forall>j\<in>set (keejob_loop now cs jobs). has_title j"
proof (induction cs arbitrary: jobs)
  case Nil
  then show ?case by simp
next
  case (Cons c cs)
  show ?case
  proof (cases c)
    case Raised
    with Cons show ?thesis by simp
  next
    case (Returned hd)
    show ?thesis
    proof (cases "h_parent hd")
      case None
      with Returned Cons show ?thesis by simp
    next
      case (Some cont)
      show ?thesis
      proof (cases "parse_keejob_job now cont (Some (h_link hd))")
        case None
        with Returned Some Cons show ?thesis by simp
      next
        case job: (Some job)
        then have "has_title job" by (rule parse_keejob_job_title)
        with Cons.prems have "\<forall>j\<in>set (jobs @ [job]). has_title j" by auto
        then have "\<forall>j\<in>set (keejob_loop now cs (jobs @ [job])). has_title j"
          by (rule Cons.IH)
        with Returned Some job show ?thesis by simp
      qed
    qed
  qed
qed

text \<open>
  The three Tunisia collectors return only postings with a non-empty title: a card whose
  extracted title is empty makes the parser return \<open>None\<close>, and the loop goes on.
\<close>

lemma tunisia_titles_nonempty:
  "\<forall>j\<in>set (scrape_emploi_tn e search_term max_jobs @ scrape_tanitjobs e search_term max_jobs
              @ scrape_keejob e search_term max_jobs). has_title j"
proof -
  have "\<forall>j\<in>set (scrape_emploi_tn e search_term max_jobs). has_title j"
    using emploi_loop_titles [of "[]"]
    by (auto simp: scrape_emploi_tn_def split: outcome.splits)
  moreover have "\<forall>j\<in>set (scrape_tanitjobs e search_term max_jobs). has_title j"
    using tanit_loop_titles [of "[]"]
    by (auto simp: scrape_tanitjobs_def Let_def split: outcome.splits)
  moreover have "\<forall>j\<in>set (scrape_keejob e search_term max_jobs). has_title j"
    using keejob_loop_titles [of "[]"]
    by (auto simp: scrape_keejob_def split: outcome.splits)
  ultimately show ?thesis by auto
qed

text \<open>
  Claim C5 fails for the JobSpy converter: it makes one posting of every row and puts
  \<open>N/A\<close> only where the title is absent, so a row whose title is the empty string becomes
  a posting with an empty title, where each of the three Tunisia parsers returns \<open>None\<close>.
\<close>

theorem convert_jobspy_keeps_empty_title:
  "map title (convert_jobspy_to_dict ''2024-01-01T00:00:00''
                [sample_row [] ''Acme'' ''Paris'' False] ''LinkedIn'') = [Some (Str [])]
   \<and> parse_emploi_tn_job ''2024-01-01T00:00:00''
        \<lparr>ec_recruteur = Some ''Acme'', ec_text = ''Paris'', ec_p = None\<rparr>
        (Some (Some \<lparr>link_text = [], link_href = ''/offre/1''\<rparr>)) = None"
  by code_simp

section \<open>Failure of one source\<close>

lemma scrape_international_jobs_parts:
  "scrape_international_jobs e t (or_tunisia (text_of l)) 50 h =
     postings_of e t l h LinkedIn @ postings_of e t l h IndeedUSA
       @ postings_of e t l h IndeedFrance @ postings_of e t l h ZipRecruiter"
proof -
  have "or_tunisia (or_tunisia (text_of l)) = or_tunisia (text_of l)" by (simp add: or_tunisia_def)
  then show ?thesis
    by (simp add: scrape_international_jobs_def postings_of_def linkedin_query_def)
qed

lemma tunisia_disabled:
  "\<not> (selenium_available e \<and> driver e) \<Longrightarrow>
   scrape_emploi_tn e t n = [] \<and> scrape_tanitjobs e t n = [] \<and> scrape_keejob e t n = []"
  by (auto simp: scrape_emploi_tn_def scrape_tanitjobs_def scrape_keejob_def)

lemma collect_all_jobs_parts:
  "collect_all_jobs e t l h = concat (map (postings_of e t l h) all_sources)"
proof -
  have tun: "(if selenium_available e \<and> driver e
              then scrape_emploi_tn e t 30 @ scrape_tanitjobs e t 30 @ scrape_keejob e t 30
              else []) =
             postings_of e t l h Emploitunisie @ postings_of e t l h Tanitjobs
               @ postings_of e t l h Keejob"
    using tunisia_disabled [of e t 30] by (auto simp: postings_of_def)
  have intl: "(if jobspy_available e then scrape_international_jobs e t (or_tunisia (text_of l)) 50 h else []) =
              postings_of e t l h LinkedIn @ postings_of e t l h IndeedUSA
                @ postings_of e t l h IndeedFrance @ postings_of e t l h ZipRecruiter"
  proof (cases "jobspy_available e")
    case True
    then show ?thesis by (simp add: scrape_international_jobs_parts)
  next
    case False
    then show ?thesis by (simp add: postings_of_def)
  qed
  have "collect_all_jobs e t l h =
          (if selenium_available e \<and> driver e
           then scrape_emploi_tn e t 30 @ scrape_tanitjobs e t 30 @ scrape_keejob e t 30
           else [])
          @ (if jobspy_available e then scrape_international_jobs e t (or_tunisia (text_of l)) 50 h else [])"
    by (simp add: collect_all_jobs_def)
  then show ?thesis by (simp only: tun intl) (simp add: all_sources_def)
qed

lemma failed_source_empty:
  "fetch_fails e t l h s \<Longrightarrow> postings_of e t l h s = []"
  by (cases s)
     (auto simp: fetch_fails_def postings_of_def raised_def scrape_emploi_tn_def
        scrape_tanitjobs_def scrape_keejob_def jobspy_search_def split: outcome.splits)

lemma concat_map_remove1:
  "f s = [] \<Longrightarrow> concat (map f (remove1 s xs)) = concat (map f xs)"
  by (induction xs) auto

text \<open>
  Claim C6. If the fetch of one source (a Tunisia site or one of the four international
  searches) raises, that source contributes no posting and the collection phase yields
  the postings of the other sources, in their order; the collection is a total function,
  it raises nothing.
\<close>

theorem collection_survives_failed_source:
  assumes "fetch_fails e t l h s"
  shows "postings_of e t l h s = []
         \<and> collect_all_jobs e t l h = concat (map (postings_of e t l h) (remove1 s all_sources))"
proof -
  have empty: "postings_of e t l h s = []"
    using assms by (rule failed_source_empty)
  then have "concat (map (postings_of e t l h) (remove1 s all_sources)) =
             concat (map (postings_of e t l h) all_sources)"
    by (rule concat_map_remove1)
  with empty show ?thesis by (simp add: collect_all_jobs_parts)
qed

theorem collection_survives_failed_source_witness:
  "fetch_fails sample_env ''Python'' (Val []) 720 IndeedFrance
   \<and> postings_of sample_env ''Python'' (Val []) 720 IndeedFrance = []
   \<and> collect_all_jobs sample_env ''Python'' (Val []) 720 =
       concat (map (postings_of sample_env ''Python'' (Val []) 720)
         [Emploitunisie, Tanitjobs, Keejob, LinkedIn, IndeedUSA, ZipRecruiter])
   \<and> length (collect_all_jobs sample_env ''Python'' (Val []) 720) = 4"
proof -
  have f: "fetch_fails sample_env ''Python'' (Val []) 720 IndeedFrance"
    by (simp add: fetch_fails_def sample_env_def sample_jobs_def indeed_france_query_def raised_def)
  have n: "length (collect_all_jobs sample_env ''Python'' (Val []) 720) = 4"
    by code_simp
  show ?thesis
    using f n collection_survives_failed_source [OF f]
    by (simp add: all_sources_def)
qed

section \<open>The search term\<close>

text \<open>
  Claim C7, as stated, fails: with a title of five words and the first domain
  \<open>Data Science\<close>, \<open>build_search_term\<close> returns the first word of that domain, \<open>Data\<close>,
  not the domain.
\<close>

theorem build_search_term_not_whole_domain:
  "build_search_term
     \<lparr>kw_title = Val ''Senior Full Stack Software Engineer'',
      kw_domains = Val [''Data Science''],
      kw_skills = [''Python''], kw_location = Val []\<rparr> = Inr ''Data''
   \<and> spec_search_term
     \<lparr>kw_title = Val ''Senior Full Stack Software Engineer'',
      kw_domains = Val [''Data Science''],
      kw_skills = [''Python''], kw_location = Val []\<rparr> = ''Data Science''"
  by code_simp

text \<open>
  Claim C7, amended. \<open>build_search_term\<close> returns the title when it is not empty and has at
  most four words; else the first word of the first domain, when there is a first domain and
  it contains a word; else, when there is no domain or the first domain is the empty string,
  the first skill when there is one, and the term \<open>informatique\<close> when there is none.
\<close>

theorem build_search_term_cases:
  "(text_of (kw_title k) \<noteq> [] \<and> length (split (text_of (kw_title k))) \<le> 4
      \<longrightarrow> build_search_term k = Inr (text_of (kw_title k)))
   \<and> (\<not> (text_of (kw_title k) \<noteq> [] \<and> length (split (text_of (kw_title k))) \<le> 4)
      \<longrightarrow> (\<forall>d ds w ws. items_of (kw_domains k) = d # ds \<and> split d = w # ws
              \<longrightarrow> build_search_term k = Inr w)
        \<and> (items_of (kw_domains k) = [] \<or> hd (items_of (kw_domains k)) = []
              \<longrightarrow> (\<forall>s ss. kw_skills k = s # ss \<longrightarrow> build_search_term k = Inr s)
                \<and> (kw_skills k = [] \<longrightarrow> build_search_term k = Inr ''informatique'')))"
proof -
  have split_Nil: "split [] = []" by (simp add: split_def)
  show ?thesis
    by (auto simp: build_search_term_def first_def Let_def split_Nil)
qed

theorem build_search_term_cases_witness:
  "(text_of (kw_title \<lparr>kw_title = Val ''Data Engineer'', kw_domains = Val [''Data Science''],
       kw_skills = [''Python''], kw_location = Val []\<rparr>) \<noteq> []
     \<and> length (split ''Data Engineer'') \<le> 4
     \<and> build_search_term \<lparr>kw_title = Val ''Data Engineer'', kw_domains = Val [''Data Science''],
         kw_skills = [''Python''], kw_location = Val []\<rparr> = Inr ''Data Engineer'')
   \<and> (split ''Data Science'' = ''Data'' # [''Science'']
     \<and> build_search_term \<lparr>kw_title = Val [], kw_domains = Val [''Data Science''],
         kw_skills = [''Python''], kw_location = Val []\<rparr> = Inr ''Data'')
   \<and> build_search_term \<lparr>kw_title = Val [], kw_domains = Val [],
         kw_skills = [''Python''], kw_location = Val []\<rparr> = Inr ''Python''
   \<and> build_search_term \<lparr>kw_title = Null, kw_domains = Val [[]],
         kw_skills = [], kw_location = Val []\<rparr> = Inr ''informatique''"
proof -
  have w: "split ''Data Engineer'' = [''Data'', ''Engineer'']"
    "split ''Data Science'' = [''Data'', ''Science'']"
    by code_simp+
  show ?thesis
    using
      build_search_term_cases [of "\<lparr>kw_title = Val ''Data Engineer'', kw_domains = Val [''Data Science''],
         kw_skills = [''Python''], kw_location = Val []\<rparr>"]
      build_search_term_cases [of "\<lparr>kw_title = Val [], kw_domains = Val [''Data Science''],
         kw_skills = [''Python''], kw_location = Val []\<rparr>"]
      build_search_term_cases [of "\<lparr>kw_title = Val [], kw_domains = Val [],
         kw_skills = [''Python''], kw_location = Val []\<rparr>"]
      build_search_term_cases [of "\<lparr>kw_title = Null, kw_domains = Val [[]],
         kw_skills = [], kw_location = Val []\<rparr>"]
    by (simp add: w text_of_def items_of_def)
qed

section \<open>The skill-overlap signal\<close>

lemma skills_loop_sum:
  "skills_loop job_text xs m = m + sum_list (map (spec_skill_credit job_text) xs)"
proof (induction xs arbitrary: m)
  case Nil
  show ?case by simp
next
  case (Cons x xs)
  have ex: "list_ex (\<lambda>word. sublist word job_text) (filter (\<lambda>word. 3 < length word) (split (lower x)))
            \<longleftrightarrow> (\<exists>word\<in>set (split (lower x)). 3 < length word \<and> sublist word job_text)"
    by (auto simp: list_ex_iff)
  show ?case
  proof (cases "sublist (lower x) job_text")
    case True
    then show ?thesis by (simp add: Cons.IH spec_skill_credit_def)
  next
    case False
    show ?thesis
    proof (cases "\<exists>word\<in>set (split (lower x)). 3 < length word \<and> sublist word job_text")
      case True
      with False ex show ?thesis
        by (simp add: Cons.IH spec_skill_credit_def Let_def)
    next
      case no: False
      with False ex show ?thesis
        by (simp add: Cons.IH spec_skill_credit_def Let_def)
    qed
  qed
qed

lemma skill_points_spec:
  assumes "technical_skills cv \<noteq> []"
  shows "skill_points (job_text_of j) cv = Inr (spec_skill_overlap j (technical_skills cv))"
proof -
  from assms obtain sk ts where sk: "skills cv = Some (Val sk)" "technical sk = Some (Val ts)"
    "ts \<noteq> []"
    by (auto simp: technical_skills_def split: option.splits nullable.splits)
  then have ts: "technical_skills cv = ts" by (simp add: technical_skills_def)
  show ?thesis
    using skill_points_value [OF sk, of "job_text_of j"]
    by (simp add: ts skills_loop_sum spec_skill_overlap_def Let_def del: length_take)
qed

lemma skill_points_without_skills: "skill_points job_text (cv\<lparr>skills := None\<rparr>) = Inr 0"
  by (simp add: skill_points_def)

lemma domain_points_without_skills:
  "domain_points job_text (cv\<lparr>skills := None\<rparr>) = domain_points job_text cv"
  by (simp add: domain_points_def)

lemma title_points_without_skills:
  "title_points j (cv\<lparr>skills := None\<rparr>) = title_points j cv"
  by (simp add: title_points_def)

text \<open>
  Claim C9. For a profile with at least one technical skill, the skill-overlap signal of
  \<open>calculate_match_score\<close> equals the specification's formula: the sum of the credits
  (1, one half or 0) of the first 20 skills, divided by the number of skills considered,
  times 35. It is the contribution to the score: when the posting has the score \<open>rest\<close>
  against the same profile without the skills, its score is \<open>rest\<close> plus the formula.
\<close>

theorem skill_overlap_contribution:
  assumes "technical_skills cv \<noteq> []"
    and "calculate_match_score j (cv\<lparr>skills := None\<rparr>) = Inr rest"
  shows "skill_points (job_text_of j) cv = Inr (spec_skill_overlap j (technical_skills cv))
         \<and> calculate_match_score j cv = Inr (rest + spec_skill_overlap j (technical_skills cv))"
proof -
  have sp: "skill_points (job_text_of j) cv = Inr (spec_skill_overlap j (technical_skills cv))"
    using assms(1) by (rule skill_points_spec)
  from assms(2) obtain d s l t where parts:
    "domain_points (job_text_of j) (cv\<lparr>skills := None\<rparr>) = Inr d"
    "skill_points (job_text_of j) (cv\<lparr>skills := None\<rparr>) = Inr s"
    "location_points j = Inr l"
    "title_points j (cv\<lparr>skills := None\<rparr>) = Inr t"
    "rest = (if truthy_get (title j) then 10 else 0) + d + s + l + t"
    by (auto simp: calculate_match_score_parts)
  have s: "s = 0" using parts(2) by (simp add: skill_points_without_skills)
  have "domain_points (job_text_of j) cv = Inr d" "title_points j cv = Inr t"
    using parts(1,4) by (simp_all add: domain_points_without_skills title_points_without_skills)
  with sp parts(3) have
    "calculate_match_score j cv =
       Inr ((if truthy_get (title j) then 10 else 0) + d
            + spec_skill_overlap j (technical_skills cv) + l + t)"
    by (simp add: calculate_match_score_parts)
  with sp parts(5) s show ?thesis by simp
qed

theorem skill_overlap_contribution_witness:
  "technical_skills sample_cv \<noteq> []
   \<and> calculate_match_score
        (sample_job ''Python Rust developer'' ''Acme'' ''Paris'' False ''LinkedIn'' 0)
        (sample_cv\<lparr>skills := None\<rparr>) = Inr 10
   \<and> spec_skill_overlap (sample_job ''Python Rust developer'' ''Acme'' ''Paris'' False ''LinkedIn'' 0)
        (technical_skills sample_cv) = 70 / 3
   \<and> calculate_match_score
        (sample_job ''Python Rust developer'' ''Acme'' ''Paris'' False ''LinkedIn'' 0)
        sample_cv = Inr (10 + 70 / 3)"
proof -
  have t: "technical_skills sample_cv \<noteq> []"
    by (simp add: technical_skills_def sample_cv_def)
  have r: "calculate_match_score
        (sample_job ''Python Rust developer'' ''Acme'' ''Paris'' False ''LinkedIn'' 0)
        (sample_cv\<lparr>skills := None\<rparr>) = Inr 10"
    by code_simp
  have v: "spec_skill_overlap (sample_job ''Python Rust developer'' ''Acme'' ''Paris'' False ''LinkedIn'' 0)
        (technical_skills sample_cv) = 70 / 3"
    by code_simp
  from skill_overlap_contribution [OF t r]
  have "calculate_match_score
        (sample_job ''Python Rust developer'' ''Acme'' ''Paris'' False ''LinkedIn'' 0)
        sample_cv = Inr (10 + 70 / 3)"
    by (simp only: v)
  with t r v show ?thesis by (intro conjI)
qed

section \<open>Fields that hold no string\<close>

lemma lower_Nil_iff: "lower s = [] \<longleftrightarrow> s = []"
  by (simp add: lower_def)

text \<open>
  \<open>calculate_match_score\<close> returns a value exactly for the postings whose title and
  location are absent or strings and the profiles whose fields are absent or not \<open>null\<close>.
\<close>

lemma domain_points_returns:
  "returns (domain_points job_text cv) \<longleftrightarrow> job_search_intent cv \<noteq> Some Null"
proof (cases "domain_points job_text cv")
  case (Inl e)
  then show ?thesis
    unfolding domain_points_def Let_def
    by (auto simp: returns_def bind_res_def py_div_def
        split: option.splits nullable.splits if_splits)
next
  case (Inr d)
  then show ?thesis
    unfolding domain_points_def Let_def
    by (auto simp: returns_def split: option.splits nullable.splits if_splits)
qed

lemma skill_points_returns:
  "returns (skill_points job_text cv) \<longleftrightarrow>
     skills cv \<noteq> Some Null
     \<and> (case skills cv of Some (Val sk) \<Rightarrow> technical sk \<noteq> Some Null | _ \<Rightarrow> True)"
proof (cases "\<exists>sk ts. skills cv = Some (Val sk) \<and> technical sk = Some (Val ts) \<and> ts \<noteq> []")
  case True
  then obtain sk ts where sk: "skills cv = Some (Val sk)" "technical sk = Some (Val ts)" "ts \<noteq> []"
    by blast
  then show ?thesis using skill_points_value [OF sk, of job_text] by (simp add: returns_def)
next
  case False
  then show ?thesis
    unfolding skill_points_def Let_def
    by (auto simp: returns_def split: option.splits nullable.splits)
qed

lemma location_points_returns:
  "returns (location_points j) \<longleftrightarrow>
     (case get_val (Str []) (location j) of Str _ \<Rightarrow> True | _ \<Rightarrow> False)"
  by (auto simp: location_points_def returns_def bind_res_def lower_val_def split: pyval.splits)

lemma title_points_returns:
  "returns (title_points j cv) \<longleftrightarrow>
     cv_title cv \<noteq> Some Null
     \<and> (case get_val (Str []) (title j) of Str _ \<Rightarrow> True | _ \<Rightarrow> False)"
proof (cases "title_points j cv")
  case (Inl e)
  then show ?thesis
    unfolding title_points_def Let_def
    by (auto simp: returns_def bind_res_def py_div_def lower_val_def lower_json_def get_val_def
        split: option.splits nullable.splits pyval.splits if_splits)
next
  case (Inr d)
  then show ?thesis
    unfolding title_points_def Let_def
    by (auto simp: returns_def bind_res_def lower_val_def lower_json_def get_val_def
        split: option.splits nullable.splits pyval.splits if_splits)
qed

lemma calculate_match_score_returns:
  "returns (calculate_match_score j cv) \<longleftrightarrow> plain_posting j \<and> plain_profile cv"
proof -
  have "returns (calculate_match_score j cv) \<longleftrightarrow>
          returns (domain_points (job_text_of j) cv) \<and> returns (skill_points (job_text_of j) cv)
          \<and> returns (location_points j) \<and> returns (title_points j cv)"
    by (auto simp: returns_iff calculate_match_score_parts)
  then show ?thesis
    by (auto simp: domain_points_returns skill_points_returns location_points_returns
        title_points_returns plain_posting_def plain_profile_def)
qed

text \<open>
  Claim C1 fails where a field holds no string. A row of the data frame whose location
  cell is empty becomes a posting whose location is \<open>None\<close>, line 480 calls \<open>.lower()\<close> on
  it and \<open>calculate_match_score\<close> raises \<open>AttributeError\<close>; nothing in
  \<open>scrape_and_match\<close> catches it. The key of lines 589-590 passes the same fields through
  \<open>str\<close> first.
\<close>

theorem calculate_match_score_raises_on_empty_cell:
  "map location (convert_jobspy_to_dict ''2024-01-01T00:00:00'' [empty_cell_row] ''LinkedIn'')
     = [Some PyNone]
   \<and> map (\<lambda>j. calculate_match_score j sample_cv)
        (convert_jobspy_to_dict ''2024-01-01T00:00:00'' [empty_cell_row] ''LinkedIn'')
     = [Inl AttributeError]
   \<and> scrape_and_match empty_cell_env ''cv.json'' 15 50 720 = Inl AttributeError"
  by code_simp

text \<open>
  Claim C8 fails where a field that is missing arrives as \<open>null\<close> or \<open>nan\<close> instead of
  being absent: a profile whose title is \<open>null\<close> raises \<open>AttributeError\<close> at line 484, a
  posting whose title is \<open>nan\<close> raises it at line 485, and a profile whose skills are \<open>null\<close>
  raises \<open>TypeError\<close> at line 464.
\<close>

theorem calculate_match_score_raises_on_null_field:
  "calculate_match_score (sample_job ''Python developer'' ''Acme'' ''Tunis'' False ''LinkedIn'' 0)
     (sample_cv\<lparr>cv_title := Some Null\<rparr>) = Inl AttributeError
   \<and> calculate_match_score
       ((sample_job ''Python developer'' ''Acme'' ''Tunis'' False ''LinkedIn'' 0)\<lparr>title := Some NaN\<rparr>)
       sample_cv = Inl AttributeError
   \<and> calculate_match_score (sample_job ''Python developer'' ''Acme'' ''Tunis'' False ''LinkedIn'' 0)
     (sample_cv\<lparr>skills := Some Null\<rparr>) = Inl TypeError"
  by code_simp

text \<open>
  Where the fields are absent or hold values of their types, the two claims hold: the
  score is a number between 0 and 100, and a signal whose input is absent or empty is 0.
\<close>

lemma calculate_match_score_plain_range:
  assumes "plain_posting j" "plain_profile cv"
  shows "\<exists>s. calculate_match_score j cv = Inr s \<and> 0 \<le> s \<and> s \<le> 100"
proof -
  from assms have "returns (calculate_match_score j cv)"
    by (simp add: calculate_match_score_returns)
  then obtain s where s: "calculate_match_score j cv = Inr s" by (auto simp: returns_iff)
  then have "0 \<le> s \<and> s \<le> 100" by (rule calculate_match_score_in_range)
  with s show ?thesis by blast
qed

lemma domain_points_no_domains:
  "job_search_intent cv = None
     \<or> (\<exists>i. job_search_intent cv = Some (Val i)
            \<and> (domains i = None \<or> domains i = Some Null \<or> domains i = Some (Val [])))
   \<Longrightarrow> domain_points job_text cv = Inr 0"
  by (auto simp: domain_points_def)

lemma skill_points_no_skills:
  "skills cv = None
     \<or> (\<exists>sk. skills cv = Some (Val sk) \<and> (technical sk = None \<or> technical sk = Some (Val [])))
   \<Longrightarrow> skill_points job_text cv = Inr 0"
  by (auto simp: skill_points_def split: option.splits nullable.splits)

lemma title_points_no_title:
  assumes "plain_posting j" "cv_title cv \<noteq> Some Null"
    and "get_val (Val []) (cv_title cv) = Val [] \<or> get_val (Str []) (title j) = Str []"
  shows "title_points j cv = Inr 0"
  using assms
  by (auto simp: title_points_def plain_posting_def lower_json_def lower_val_def bind_res_def
      get_val_def lower_Nil_iff split: option.splits nullable.splits pyval.splits)

lemma location_points_no_location:
  "get_val (Str []) (location j) = Str [] \<Longrightarrow> \<not> truthy_get (is_remote j) \<Longrightarrow>
   location_points j = Inr 0"
  by (simp add: location_points_def lower_val_def bind_res_def lower_def)

end
